theory Spec2Isabelle
  imports Complex_Main "HOL-Library.Signed_Division"
begin

section \<open>Paintbrush tool (mitkPaintbrushTool.cpp)\<close>

text \<open>
  Coordinates (\<^verbatim>\<open>mitk::ScalarType\<close>, and the \<^verbatim>\<open>float\<close> temporaries of
  \<^verbatim>\<open>UpdateContour\<close>) are modelled as real numbers. Every value the contour
  construction computes is a multiple of 1/4, so for brush sizes of ordinary magnitude the
  binary floating-point operations of the source are exact and agree with the real ones.
  The C++ \<^verbatim>\<open>int\<close> brush size is an \<^typ>\<open>int\<close>; its \<^verbatim>\<open>/\<close> and \<^verbatim>\<open>%\<close> truncate
  towards zero, which is \<open>sdiv\<close> and \<open>smod\<close>.
\<close>

type_synonym Point2D = "real \<times> real"
type_synonym Point3D = "real \<times> real \<times> real"

definition upperLeft :: "Point2D \<Rightarrow> Point2D" where
  "upperLeft p = (fst p - 0.5, snd p + 0.5)"

text \<open>
  The inner loop \<^verbatim>\<open>while (curPointIsInside)\<close> of \<^verbatim>\<open>UpdateContour\<close>: the state
  is \<^verbatim>\<open>curPoint[0]\<close>, \<^verbatim>\<open>curPointX_squared\<close> and \<^verbatim>\<open>curPointIsInside\<close>.
\<close>

function moveRight :: "real \<Rightarrow> real \<Rightarrow> real \<Rightarrow> real \<times> real \<times> bool \<Rightarrow> real \<times> real \<times> bool" where
  "moveRight cx ysq fradius (x, xsq, inside) =
     (if inside
      then moveRight cx ysq fradius
             (x + 1, (x + 1 - cx) * (x + 1 - cx),
              \<not> (sqrt ((x + 1 - cx) * (x + 1 - cx) + ysq) > fradius))
      else (x, xsq, inside))"
  by pat_completeness auto

text \<open>
  The inner loop \<^verbatim>\<open>while (!curPointIsInside)\<close>: the state is \<^verbatim>\<open>curPoint[1]\<close>,
  \<^verbatim>\<open>curPointY_squared\<close>, \<^verbatim>\<open>curPointIsInside\<close> and the vector
  \<^verbatim>\<open>quarterCycleUpperRight\<close>; the loop is left by \<^verbatim>\<open>break\<close> once
  \<^verbatim>\<open>curPoint[1] <= 0\<close>.
\<close>

function moveDown :: "real \<Rightarrow> real \<Rightarrow> real \<Rightarrow> real
    \<Rightarrow> real \<times> real \<times> bool \<times> Point2D list \<Rightarrow> real \<times> real \<times> bool \<times> Point2D list" where
  "moveDown cy xsq fradius x (y, ysq, inside, pts) =
     (if \<not> inside
      then (if sqrt (xsq + (y - 1 - cy) * (y - 1 - cy)) \<le> fradius
            then (if y - 1 \<le> 0
                  then (y - 1, (y - 1 - cy) * (y - 1 - cy), True, pts @ [upperLeft (x, y - 1)])
                  else moveDown cy xsq fradius x
                         (y - 1, (y - 1 - cy) * (y - 1 - cy), True, pts @ [upperLeft (x, y - 1)]))
            else (if y - 1 \<le> 0
                  then (y - 1, (y - 1 - cy) * (y - 1 - cy), inside, pts)
                  else moveDown cy xsq fradius x
                         (y - 1, (y - 1 - cy) * (y - 1 - cy), inside, pts)))
      else (y, ysq, inside, pts))"
  by pat_completeness auto

text \<open>
  The outer loop \<^verbatim>\<open>while (curPoint[1] > 0)\<close>. Each round resets
  \<^verbatim>\<open>curPointX_squared\<close> to 0, recomputes \<^verbatim>\<open>curPointY_squared\<close>, moves right
  until the pixel is outside the circle, records that point, and moves down.
\<close>

lemma inside_bound:
  fixes a :: real
  assumes "sqrt (a * a + ysq) \<le> fr"
  shows "a \<le> sqrt (fr * fr + \<bar>ysq\<bar>)"
proof (rule ccontr)
  assume "\<not> a \<le> sqrt (fr * fr + \<bar>ysq\<bar>)"
  then have gt: "sqrt (fr * fr + \<bar>ysq\<bar>) < a" by simp
  have nn: "0 \<le> fr * fr + \<bar>ysq\<bar>" by simp
  then have "0 \<le> sqrt (fr * fr + \<bar>ysq\<bar>)" by simp
  with gt have "sqrt (fr * fr + \<bar>ysq\<bar>) * sqrt (fr * fr + \<bar>ysq\<bar>) < a * a"
    by (intro mult_strict_mono') auto
  with nn have "fr * fr + \<bar>ysq\<bar> < a * a" by simp
  then have "fr * fr < a * a + ysq" by linarith
  then have "sqrt (fr * fr) < sqrt (a * a + ysq)" by (simp only: real_sqrt_less_iff)
  moreover have "fr \<le> sqrt (fr * fr)" by simp
  ultimately show False using assms by linarith
qed

termination moveRight
proof (relation "measure (\<lambda>(cx, ysq, fradius, x, xsq, inside).
           if inside then Suc (nat \<lceil>cx + sqrt (fradius * fradius + \<bar>ysq\<bar>) - x\<rceil>) else 0)",
       goal_cases)
  case 1
  show ?case by simp
next
  case (2 cx ysq fradius x xsq inside)
  show ?case
  proof (cases "sqrt ((x + 1 - cx) * (x + 1 - cx) + ysq) > fradius")
    case True
    with 2 show ?thesis by simp
  next
    case False
    then have "x + 1 - cx \<le> sqrt (fradius * fradius + \<bar>ysq\<bar>)"
      by (intro inside_bound) simp
    then have "1 \<le> cx + sqrt (fradius * fradius + \<bar>ysq\<bar>) - x" by linarith
    then have "nat \<lceil>cx + sqrt (fradius * fradius + \<bar>ysq\<bar>) - (x + 1)\<rceil>
        < nat \<lceil>cx + sqrt (fradius * fradius + \<bar>ysq\<bar>) - x\<rceil>"
      by linarith
    with 2 False show ?thesis by simp
  qed
qed

termination moveDown
proof (relation "measure (\<lambda>(cy, xsq, fradius, x, y, ysq, inside, pts). nat \<lceil>y\<rceil>)", goal_cases)
  case 1
  show ?case by simp
next
  case (2 cy xsq fradius x y ysq inside pts)
  then have "0 < y - 1" by simp
  then have "nat \<lceil>y - 1\<rceil> < nat \<lceil>y\<rceil>" by linarith
  then show ?case by simp
next
  case (3 cy xsq fradius x y ysq inside pts)
  then have "0 < y - 1" by simp
  then have "nat \<lceil>y - 1\<rceil> < nat \<lceil>y\<rceil>" by linarith
  then show ?case by simp
qed

lemma moveRight_outside: "snd (snd (moveRight cx ysq fr s)) = False"
  by (induction cx ysq fr s rule: moveRight.induct) simp

declare moveRight.simps [simp del] moveDown.simps [simp del]

lemma moveDown_y:
  "\<not> inside \<Longrightarrow> fst (moveDown cy xsq fr x (y, ysq, inside, pts)) \<le> y - 1"
proof (induction cy xsq fr x "(y, ysq, inside, pts)" arbitrary: y ysq inside pts
       rule: moveDown.induct)
  case (1 cy xsq fradius x y ysq inside pts)
  show ?case
  proof (cases "y - 1 \<le> 0")
    case True
    with 1(3) show ?thesis by (simp add: moveDown.simps)
  next
    case False
    show ?thesis
    proof (cases "sqrt (xsq + (y - 1 - cy) * (y - 1 - cy)) \<le> fradius")
      case True
      have "moveDown cy xsq fradius x
              (y - 1, (y - 1 - cy) * (y - 1 - cy), True, pts @ [upperLeft (x, y - 1)])
          = (y - 1, (y - 1 - cy) * (y - 1 - cy), True, pts @ [upperLeft (x, y - 1)])"
        by (simp add: moveDown.simps)
      with True False 1(3) show ?thesis by (simp add: moveDown.simps [of _ _ _ _ y])
    next
      case F2: False
      from 1(2) [OF 1(3) F2 False] 1(3)
      have "fst (moveDown cy xsq fradius x (y - 1, (y - 1 - cy) * (y - 1 - cy), inside, pts))
          \<le> y - 1 - 1"
        by simp
      with F2 False 1(3) show ?thesis by (simp add: moveDown.simps [of _ _ _ _ y])
    qed
  qed
qed

function quarterLoop :: "real \<Rightarrow> real \<Rightarrow> real \<Rightarrow> real \<times> real \<times> bool \<times> Point2D list
    \<Rightarrow> Point2D list" where
  "quarterLoop cx cy fradius (x, y, inside, pts) =
     (if y > 0
      then (case moveRight cx ((y - cy) * (y - cy)) fradius (x, 0, inside) of
              (x', xsq, inside') \<Rightarrow>
                (case moveDown cy xsq fradius x'
                        (y, (y - cy) * (y - cy), inside', pts @ [upperLeft (x', y)]) of
                   (y', ysq', inside'', pts') \<Rightarrow>
                     quarterLoop cx cy fradius (x', y', inside'', pts')))
      else pts)"
  by pat_completeness auto

termination quarterLoop
proof (relation "measure (\<lambda>(cx, cy, fradius, x, y, inside, pts). nat \<lceil>y\<rceil>)", goal_cases)
  case 1
  show ?case by simp
next
  case (2 cx cy fradius x y inside pts x' r1 xsq inside' y' r2 ysq' r3 inside'' pts')
  have "inside' = snd (snd (moveRight cx ((y - cy) * (y - cy)) fradius (x, 0, inside)))"
    using 2(2,3) by (metis snd_conv)
  then have out: "\<not> inside'" by (simp add: moveRight_outside)
  have "y' = fst (moveDown cy xsq fradius x'
                    (y, (y - cy) * (y - cy), inside', pts @ [upperLeft (x', y)]))"
    using 2(4) by (metis fst_conv)
  with moveDown_y [OF out] have "y' \<le> y - 1" by simp
  moreover from 2 have "0 < y" by simp
  ultimately have "nat \<lceil>y'\<rceil> < nat \<lceil>y\<rceil>" by linarith
  then show ?case by simp
qed

declare quarterLoop.simps [simp del]

text \<open>
  The body of \<^verbatim>\<open>UpdateContour\<close> after the null check: the vertex list of the local
  \<^verbatim>\<open>contourInImageIndexCoordinates\<close> as a function of the static \<^verbatim>\<open>m_Size\<close>.
  The three mirrored quarters are written operation by operation as the source has them
  (\<^verbatim>\<open>p[1] *= -1\<close>, then \<^verbatim>\<open>p[0] *= -1\<close>, then \<^verbatim>\<open>p[1] *= -1\<close> again for odd
  sizes; the \<^verbatim>\<open>+ 1\<close> corrections for even sizes).
\<close>

definition contourInImageIndexCoordinates :: "int \<Rightarrow> Point3D list" where
  "contourInImageIndexCoordinates m_Size =
     (let radius = m_Size sdiv 2;
          fradius = real_of_int m_Size / 2;
          evenSize = (m_Size smod 2 = 0);
          centerCorrection = (if evenSize then (0.5, 0.5) else (0, 0));
          curPoint = (0, real_of_int radius);
          quarterCycleUpperRight =
            quarterLoop (fst centerCorrection) (snd centerCorrection) fradius
              (fst curPoint, snd curPoint, True, [upperLeft curPoint]);
          quarterCycleLowerRight =
            (if \<not> evenSize
             then map (\<lambda>p. (fst p, snd p * (- 1))) quarterCycleUpperRight
             else map (\<lambda>p. (fst p, snd p * (- 1) + 1)) quarterCycleUpperRight);
          quarterCycleLowerLeft =
            (if \<not> evenSize
             then map (\<lambda>p. (fst p * (- 1), snd p * (- 1))) quarterCycleUpperRight
             else map (\<lambda>p. (- 1 * fst p + 1, - 1 * snd p + 1)) quarterCycleUpperRight);
          quarterCycleUpperLeft =
            (if \<not> evenSize
             then map (\<lambda>p. (fst p * (- 1), snd p * (- 1) * (- 1))) quarterCycleUpperRight
             else map (\<lambda>p. (fst p * (- 1) + 1, snd p)) quarterCycleUpperRight)
      in map (\<lambda>p. (fst p, snd p, 0))
           (quarterCycleUpperRight @ rev quarterCycleLowerRight
              @ quarterCycleLowerLeft @ rev quarterCycleUpperLeft))"

subsection \<open>Tool state\<close>

text \<open>
  \<^verbatim>\<open>m_Size\<close> is a static data member (\<^verbatim>\<open>int mitk::PaintbrushTool::m_Size = 1;\<close>) and
  \<^verbatim>\<open>lastPos\<close> is a function-static local of \<^verbatim>\<open>MouseMoved\<close>: both live once per
  process, outside every tool object. Static storage is zero-initialised, so \<^verbatim>\<open>lastPos\<close>
  starts as the origin.
\<close>

record statics =
  m_Size :: int
  lastPos :: Point3D

definition initial_statics :: statics where
  "initial_statics = \<lparr>m_Size = 1, lastPos = (0, 0, 0)\<rparr>"

datatype Color = ColorRGB real real real | ColorDefault

text \<open>
  The per-object members the modelled functions read or write. The types of planes and
  2-D slice images are parameters; \<open>None\<close> is a null smart pointer.
\<close>

record ('pl, 'sl) PaintbrushTool =
  m_PaintingPixelValue :: int
  m_LastContourSize :: int
  m_MasterContour :: "Point3D list"
  m_CurrentPlane :: "'pl option"
  m_WorkingSlice :: "'sl option"
  m_PaintingSlice :: "'sl option"
  m_LastPosition :: Point3D
  m_PaintingNodeVisible :: bool
  m_PaintingNodeColor :: Color
  m_FeedbackContour :: "Point3D list"
  m_FeedbackContourColor :: Color

text \<open>The constructor \<^verbatim>\<open>PaintbrushTool(int paintingPixelValue)\<close>.\<close>

definition PaintbrushTool_new :: "int \<Rightarrow> ('pl, 'sl) PaintbrushTool" where
  "PaintbrushTool_new paintingPixelValue =
     \<lparr>m_PaintingPixelValue = paintingPixelValue, m_LastContourSize = 0, m_MasterContour = [],
      m_CurrentPlane = None, m_WorkingSlice = None, m_PaintingSlice = None,
      m_LastPosition = (0, 0, 0), m_PaintingNodeVisible = False,
      m_PaintingNodeColor = ColorDefault, m_FeedbackContour = [],
      m_FeedbackContourColor = ColorDefault\<rparr>"

record 'pl InteractionPositionEvent =
  positionInWorld :: Point3D
  currentWorldPlaneGeometry :: "'pl option"
  isAbstractTransformGeometry :: bool

text \<open>
  What the tool calls but this repository's sources under study do not define, taken as
  parameters: the geometry transforms, the slice extraction, the contour fill of
  \<^verbatim>\<open>ContourModelUtils\<close>, the constants \<^verbatim>\<open>mitk::eps\<close> and
  \<^verbatim>\<open>m_InternalFillValue\<close>, and the tool manager's working data
  (\<open>None\<close>: no working node; \<open>Some None\<close>: the node's data is not an image).
  \<^verbatim>\<open>vertex[2]\<close> of the gap rectangle is never assigned in the source; its
  indeterminate value is the parameter \<open>vertex2\<close>.
\<close>

record ('pl, 'sl, 'img) environment =
  workingData :: "'img option option"
  WorldToIndex :: "'sl \<Rightarrow> Point3D \<Rightarrow> Point3D"
  planeEqual :: "'pl \<Rightarrow> 'pl \<Rightarrow> bool"
  GetAffectedImageSliceAs2DImage :: "'pl InteractionPositionEvent \<Rightarrow> 'img \<Rightarrow> 'sl"
  zeroSliceLike :: "'sl \<Rightarrow> 'sl"
  FillContourInSlice2 :: "Point3D list \<Rightarrow> 'sl option \<Rightarrow> int \<Rightarrow> 'sl option"
  BackProjectContourFrom2DSlice :: "'sl \<Rightarrow> Point3D list \<Rightarrow> Point3D list"
  m_InternalFillValue :: int
  eps :: real
  vertex2 :: real

subsection \<open>Member functions\<close>

text \<open>
  A member function takes and returns the pair of the statics and the object it is called
  on. \<^verbatim>\<open>SetSize\<close> writes the static only.
\<close>

definition SetSize :: "int \<Rightarrow> statics \<times> ('pl, 'sl) PaintbrushTool
    \<Rightarrow> statics \<times> ('pl, 'sl) PaintbrushTool" where
  "SetSize v = (\<lambda>(st, t). (st\<lparr>m_Size := v\<rparr>, t))"

definition UpdateContour :: "statics \<Rightarrow> 'pl InteractionPositionEvent option
    \<Rightarrow> ('pl, 'sl) PaintbrushTool \<Rightarrow> ('pl, 'sl) PaintbrushTool" where
  "UpdateContour st positionEvent t =
     (case positionEvent of
        None \<Rightarrow> t
      | Some _ \<Rightarrow> t\<lparr>m_MasterContour := contourInImageIndexCoordinates (m_Size st)\<rparr>)"

definition OnInvertLogic :: "('pl, 'sl) PaintbrushTool \<Rightarrow> ('pl, 'sl) PaintbrushTool" where
  "OnInvertLogic t =
     (if m_PaintingPixelValue t = 1
      then t\<lparr>m_PaintingPixelValue := 0, m_FeedbackContourColor := ColorRGB 1 0 0\<rparr>
      else if m_PaintingPixelValue t = 0
      then t\<lparr>m_PaintingPixelValue := 1, m_FeedbackContourColor := ColorDefault\<rparr>
      else t)"

definition CheckIfCurrentSliceHasChanged :: "('pl, 'sl, 'img) environment
    \<Rightarrow> 'pl InteractionPositionEvent \<Rightarrow> ('pl, 'sl) PaintbrushTool \<Rightarrow> ('pl, 'sl) PaintbrushTool" where
  "CheckIfCurrentSliceHasChanged env event t =
     (case currentWorldPlaneGeometry event of
        None \<Rightarrow> t
      | Some planeGeometry \<Rightarrow>
          if isAbstractTransformGeometry event then t
          else (case workingData env of
                  None \<Rightarrow> t
                | Some None \<Rightarrow> t
                | Some (Some img) \<Rightarrow>
                    (let changed = t\<lparr>m_CurrentPlane := Some planeGeometry,
                                      m_WorkingSlice :=
                                        Some (GetAffectedImageSliceAs2DImage env event img)\<rparr>;
                         t1 = (case (m_CurrentPlane t, m_WorkingSlice t) of
                                 (Some currentPlane, Some _) \<Rightarrow>
                                   if \<not> planeEqual env planeGeometry currentPlane then changed
                                   else t
                               | _ \<Rightarrow> changed);
                         t2 = (case m_PaintingSlice t1 of
                                 None \<Rightarrow> t1\<lparr>m_PaintingSlice :=
                                              map_option (zeroSliceLike env) (m_WorkingSlice t1)\<rparr>
                               | Some _ \<Rightarrow> t1)
                     in t2\<lparr>m_PaintingNodeColor :=
                              (if m_PaintingPixelValue t2 = 1 then ColorRGB 0 1 0
                               else ColorRGB 1 0 0)\<rparr>)))"

text \<open>\<^verbatim>\<open>std::round\<close> rounds halfway cases away from zero.\<close>

definition std_round :: "real \<Rightarrow> real" where
  "std_round x = (if 0 \<le> x then of_int \<lfloor>x + 1 / 2\<rfloor> else - of_int \<lfloor>- x + 1 / 2\<rfloor>)"

definition EuclideanDistanceTo :: "Point3D \<Rightarrow> Point3D \<Rightarrow> real" where
  "EuclideanDistanceTo p q =
     sqrt ((fst p - fst q) * (fst p - fst q)
         + (fst (snd p) - fst (snd q)) * (fst (snd p) - fst (snd q))
         + (snd (snd p) - snd (snd q)) * (snd (snd p) - snd (snd q)))"

text \<open>
  \<^verbatim>\<open>direction.GetVnlVector().normalize()\<close> scales the vector to unit length in place
  and leaves a zero vector as it is.
\<close>

definition vnl_normalize :: "Point3D \<Rightarrow> Point3D" where
  "vnl_normalize d =
     (let n = sqrt (fst d * fst d + fst (snd d) * fst (snd d) + snd (snd d) * snd (snd d))
      in if n = 0 then d else (fst d / n, fst (snd d) / n, snd (snd d) / n))"

definition gapContour :: "('pl, 'sl, 'img) environment \<Rightarrow> Point3D \<Rightarrow> Point3D \<Rightarrow> real
    \<Rightarrow> Point3D list" where
  "gapContour env currentPos lastPosition radius =
     (let direction = vnl_normalize (fst currentPos - fst lastPosition,
                                 fst (snd currentPos) - fst (snd lastPosition),
                                 snd (snd currentPos) - snd (snd lastPosition));
          normal0 = - 1 * fst (snd direction);
          normal1 = fst direction
      in [(fst lastPosition + normal0 * radius, fst (snd lastPosition) + normal1 * radius,
           vertex2 env),
          (fst currentPos + normal0 * radius, fst (snd currentPos) + normal1 * radius,
           vertex2 env),
          (fst currentPos - normal0 * radius, fst (snd currentPos) - normal1 * radius,
           vertex2 env),
          (fst lastPosition - normal0 * radius, fst (snd lastPosition) - normal1 * radius,
           vertex2 env)])"

text \<open>
  \<^verbatim>\<open>MouseMoved(interactionEvent, leftMouseButtonPressed)\<close>. The event is a position
  event (the source dereferences the cast result unchecked). \<open>None\<close> is the null
  dereference \<^verbatim>\<open>m_WorkingSlice->GetGeometry()\<close> when no working slice exists.
  Both branches of the parity test round the same way, as in the source.
\<close>

definition MouseMoved :: "('pl, 'sl, 'img) environment \<Rightarrow> 'pl InteractionPositionEvent \<Rightarrow> bool
    \<Rightarrow> statics \<times> ('pl, 'sl) PaintbrushTool \<Rightarrow> (statics \<times> ('pl, 'sl) PaintbrushTool) option" where
  "MouseMoved env positionEvent leftMouseButtonPressed = (\<lambda>(st, t).
     (let t1 = CheckIfCurrentSliceHasChanged env positionEvent t;
          t2 = (if m_LastContourSize t1 \<noteq> m_Size st
                then (UpdateContour st (Some positionEvent) t1)\<lparr>m_LastContourSize := m_Size st\<rparr>
                else t1)
      in case m_WorkingSlice t2 of
           None \<Rightarrow> None
         | Some workingSlice \<Rightarrow>
             (let ic = WorldToIndex env workingSlice (positionInWorld positionEvent);
                  indexCoordinates =
                    (if m_Size st smod 2 = 0
                     then (std_round (fst ic), std_round (fst (snd ic)), snd (snd ic))
                     else (std_round (fst ic), std_round (fst (snd ic)), snd (snd ic)))
              in if \<bar>fst indexCoordinates - fst (lastPos st)\<bar> > eps env
                    \<or> \<bar>fst (snd indexCoordinates) - fst (snd (lastPos st))\<bar> > eps env
                    \<or> \<bar>snd (snd indexCoordinates) - snd (snd (lastPos st))\<bar> > eps env
                    \<or> leftMouseButtonPressed
                 then
                   (let st' = st\<lparr>lastPos := indexCoordinates\<rparr>;
                        contour = map (\<lambda>point. (fst point + fst indexCoordinates,
                                                 fst (snd point) + fst (snd indexCoordinates),
                                                 snd (snd point))) (m_MasterContour t2);
                        t3 = (if leftMouseButtonPressed
                              then (let filled = FillContourInSlice2 env contour
                                                   (m_PaintingSlice t2) (m_InternalFillValue env);
                                        dist = EuclideanDistanceTo indexCoordinates
                                                 (m_LastPosition t2);
                                        radius = real_of_int (m_Size st) / 2
                                    in if dist > radius
                                       then t2\<lparr>m_PaintingSlice :=
                                                 FillContourInSlice2 env
                                                   (gapContour env indexCoordinates
                                                      (m_LastPosition t2) radius)
                                                   filled (m_InternalFillValue env)\<rparr>
                                       else t2\<lparr>m_PaintingSlice := filled\<rparr>)
                              else t2\<lparr>m_PaintingNodeVisible := False\<rparr>)
                    in Some (st', t3\<lparr>m_LastPosition := indexCoordinates,
                                      m_FeedbackContour :=
                                        BackProjectContourFrom2DSlice env workingSlice contour\<rparr>))
                 else Some (st, t2))))"

text \<open>
  The notions used to state the symmetry of the brush contour. The centre of the brush is the
  pixel centre for odd sizes and the corner shifted by (+0.5, +0.5) for even sizes; a
  rotation by 180 degrees about a centre \<open>c\<close> sends \<open>p\<close> to \<open>2c - p\<close> in the plane.
\<close>

definition brushCenter :: "int \<Rightarrow> Point2D" where
  "brushCenter s = (if s smod 2 = 0 then (0.5, 0.5) else (0, 0))"

definition rotate180 :: "Point2D \<Rightarrow> Point3D \<Rightarrow> Point3D" where
  "rotate180 c p = (2 * fst c - fst p, 2 * snd c - fst (snd p), snd (snd p))"

text \<open>
  The index coordinates \<^verbatim>\<open>MouseMoved\<close> computes for an event: the slice check, the
  transform by the working slice's geometry, and the rounding. \<open>None\<close> when there is no
  working slice.
\<close>

definition roundedIndexCoordinates :: "('pl, 'sl, 'img) environment \<Rightarrow> 'pl InteractionPositionEvent
    \<Rightarrow> ('pl, 'sl) PaintbrushTool \<Rightarrow> Point3D option" where
  "roundedIndexCoordinates env positionEvent t =
     map_option
       (\<lambda>workingSlice.
          (let ic = WorldToIndex env workingSlice (positionInWorld positionEvent)
           in (std_round (fst ic), std_round (fst (snd ic)), snd (snd ic))))
       (m_WorkingSlice (CheckIfCurrentSliceHasChanged env positionEvent t))"

subsection \<open>Evaluating the contour construction\<close>

lemma moveRight_True:
  "0 \<le> fr \<Longrightarrow> moveRight cx ysq fr (x, xsq, True)
     = moveRight cx ysq fr (x + 1, (x + 1 - cx) * (x + 1 - cx),
         (x + 1 - cx) * (x + 1 - cx) + ysq \<le> fr * fr)"
proof -
  assume fr: "0 \<le> fr"
  then have "sqrt (fr * fr) = fr" by simp
  then have "(sqrt ((x + 1 - cx) * (x + 1 - cx) + ysq) \<le> fr)
      = (sqrt ((x + 1 - cx) * (x + 1 - cx) + ysq) \<le> sqrt (fr * fr))" by simp
  then have "(\<not> fr < sqrt ((x + 1 - cx) * (x + 1 - cx) + ysq))
      = ((x + 1 - cx) * (x + 1 - cx) + ysq \<le> fr * fr)"
    by (simp only: real_sqrt_le_iff not_less)
  then show ?thesis by (simp add: moveRight.simps [of _ _ _ x])
qed

lemma moveRight_False: "moveRight cx ysq fr (x, xsq, False) = (x, xsq, False)"
  by (simp add: moveRight.simps)

lemma moveDown_True: "moveDown cy xsq fr x (y, ysq, True, pts) = (y, ysq, True, pts)"
  by (simp add: moveDown.simps)

lemma moveDown_False:
  "0 \<le> fr \<Longrightarrow> moveDown cy xsq fr x (y, ysq, False, pts)
     = (if xsq + (y - 1 - cy) * (y - 1 - cy) \<le> fr * fr
        then (if y - 1 \<le> 0
              then (y - 1, (y - 1 - cy) * (y - 1 - cy), True, pts @ [upperLeft (x, y - 1)])
              else moveDown cy xsq fr x
                     (y - 1, (y - 1 - cy) * (y - 1 - cy), True, pts @ [upperLeft (x, y - 1)]))
        else (if y - 1 \<le> 0
              then (y - 1, (y - 1 - cy) * (y - 1 - cy), False, pts)
              else moveDown cy xsq fr x (y - 1, (y - 1 - cy) * (y - 1 - cy), False, pts)))"
proof -
  assume fr: "0 \<le> fr"
  then have "sqrt (fr * fr) = fr" by simp
  then have "(sqrt (xsq + (y - 1 - cy) * (y - 1 - cy)) \<le> fr)
      = (sqrt (xsq + (y - 1 - cy) * (y - 1 - cy)) \<le> sqrt (fr * fr))" by simp
  then have "(sqrt (xsq + (y - 1 - cy) * (y - 1 - cy)) \<le> fr)
      = (xsq + (y - 1 - cy) * (y - 1 - cy) \<le> fr * fr)"
    by (simp only: real_sqrt_le_iff)
  then show ?thesis by (simp add: moveDown.simps [of _ _ _ _ y])
qed

lemma quarterLoop_pos:
  "0 < y \<Longrightarrow> quarterLoop cx cy fradius (x, y, inside, pts) =
      (case moveRight cx ((y - cy) * (y - cy)) fradius (x, 0, inside) of
              (x', xsq, inside') \<Rightarrow>
                (case moveDown cy xsq fradius x'
                        (y, (y - cy) * (y - cy), inside', pts @ [upperLeft (x', y)]) of
                   (y', ysq', inside'', pts') \<Rightarrow>
                     quarterLoop cx cy fradius (x', y', inside'', pts')))"
  by (subst quarterLoop.simps) simp

lemma quarterLoop_nonpos: "\<not> 0 < y \<Longrightarrow> quarterLoop cx cy fradius (x, y, inside, pts) = pts"
  by (simp add: quarterLoop.simps)

lemmas contour_eval = contourInImageIndexCoordinates_def Let_def
  signed_divide_int_def signed_modulo_int_def
  quarterLoop_pos quarterLoop_nonpos moveRight_True moveRight_False
  moveDown_True moveDown_False upperLeft_def

lemma contour_size_0:
  "contourInImageIndexCoordinates 0
     = [(- (1 / 2), 1 / 2, 0), (- (1 / 2), 1 / 2, 0), (3 / 2, 1 / 2, 0), (3 / 2, 1 / 2, 0)]"
  by (simp add: contour_eval)

lemma contour_size_4:
  "contourInImageIndexCoordinates 4
     = [(- (1 / 2), 5 / 2, 0), (3 / 2, 5 / 2, 0), (3 / 2, 3 / 2, 0), (5 / 2, 3 / 2, 0),
        (5 / 2, - (1 / 2), 0), (3 / 2, - (1 / 2), 0), (3 / 2, - (3 / 2), 0),
        (- (1 / 2), - (3 / 2), 0),
        (3 / 2, - (3 / 2), 0), (- (1 / 2), - (3 / 2), 0), (- (1 / 2), - (1 / 2), 0),
        (- (3 / 2), - (1 / 2), 0),
        (- (3 / 2), 3 / 2, 0), (- (1 / 2), 3 / 2, 0), (- (1 / 2), 5 / 2, 0), (3 / 2, 5 / 2, 0)]"
  by (simp add: contour_eval)

lemma contour_size_nonpos:
  assumes "s \<le> 0"
  shows "contourInImageIndexCoordinates s
     = (if s smod 2 = 0
        then [(- (1 / 2), real_of_int (s sdiv 2) + 1 / 2, 0),
              (- (1 / 2), 1 / 2 - real_of_int (s sdiv 2), 0),
              (3 / 2, 1 / 2 - real_of_int (s sdiv 2), 0),
              (3 / 2, real_of_int (s sdiv 2) + 1 / 2, 0)]
        else [(- (1 / 2), real_of_int (s sdiv 2) + 1 / 2, 0),
              (- (1 / 2), - (real_of_int (s sdiv 2) + 1 / 2), 0),
              (1 / 2, - (real_of_int (s sdiv 2) + 1 / 2), 0),
              (1 / 2, real_of_int (s sdiv 2) + 1 / 2, 0)])"
proof -
  have "s sdiv 2 \<le> 0"
    using assms by (simp add: signed_divide_int_def sgn_if)
  then have "\<not> 0 < real_of_int (s sdiv 2)" by simp
  then show ?thesis
    by (simp add: contourInImageIndexCoordinates_def Let_def quarterLoop_nonpos upperLeft_def)
qed

lemma rotate_half:
  assumes "length B = length A" "length C = length A" "length D = length A"
  shows "rotate (length (A @ B @ C @ D) div 2) (A @ B @ C @ D) = C @ D @ A @ B"
proof -
  have "length (A @ B @ C @ D) div 2 = length (A @ B)" using assms by simp
  then have "rotate (length (A @ B @ C @ D) div 2) (A @ B @ C @ D)
      = rotate (length (A @ B)) ((A @ B) @ (C @ D))" by simp
  also have "\<dots> = (C @ D) @ (A @ B)" by (rule rotate_append)
  finally show ?thesis by simp
qed

lemma contour_rotation_symmetric:
  "map (rotate180 (brushCenter s)) (contourInImageIndexCoordinates s)
     = rotate (length (contourInImageIndexCoordinates s) div 2)
         (contourInImageIndexCoordinates s)"
proof -
  define UR where "UR = quarterLoop (fst (brushCenter s)) (snd (brushCenter s))
      (real_of_int s / 2)
      (0, real_of_int (s sdiv 2), True, [upperLeft (0, real_of_int (s sdiv 2))])"
  show ?thesis
  proof (cases "s smod 2 = 0")
    case True
    define A where "A = map (\<lambda>p. (fst p, snd p, 0::real)) UR"
    define B where "B = map (\<lambda>p. (fst p, snd p, 0::real))
      (rev (map (\<lambda>p. (fst p, snd p * (- 1) + 1)) UR))"
    define C where "C = map (\<lambda>p. (fst p, snd p, 0::real))
      (map (\<lambda>p. (- 1 * fst p + 1, - 1 * snd p + 1)) UR)"
    define D where "D = map (\<lambda>p. (fst p, snd p, 0::real))
      (rev (map (\<lambda>p. (fst p * (- 1) + 1, snd p)) UR))"
    have c: "contourInImageIndexCoordinates s = A @ B @ C @ D"
      using True
      by (simp add: contourInImageIndexCoordinates_def Let_def A_def B_def C_def D_def
          UR_def brushCenter_def)
    have len: "length B = length A" "length C = length A" "length D = length A"
      by (simp_all add: A_def B_def C_def D_def)
    have r: "map (rotate180 (brushCenter s)) A = C" "map (rotate180 (brushCenter s)) B = D"
       "map (rotate180 (brushCenter s)) C = A" "map (rotate180 (brushCenter s)) D = B"
      using True
      by (simp_all add: A_def B_def C_def D_def rotate180_def brushCenter_def rev_map o_def)
    show ?thesis unfolding c rotate_half [OF len] by (simp add: r)
  next
    case False
    define A where "A = map (\<lambda>p. (fst p, snd p, 0::real)) UR"
    define B where "B = map (\<lambda>p. (fst p, snd p, 0::real))
      (rev (map (\<lambda>p. (fst p, snd p * (- 1))) UR))"
    define C where "C = map (\<lambda>p. (fst p, snd p, 0::real))
      (map (\<lambda>p. (fst p * (- 1), snd p * (- 1))) UR)"
    define D where "D = map (\<lambda>p. (fst p, snd p, 0::real))
      (rev (map (\<lambda>p. (fst p * (- 1), snd p * (- 1) * (- 1))) UR))"
    have c: "contourInImageIndexCoordinates s = A @ B @ C @ D"
      using False
      by (simp add: contourInImageIndexCoordinates_def Let_def A_def B_def C_def D_def
          UR_def brushCenter_def)
    have len: "length B = length A" "length C = length A" "length D = length A"
      by (simp_all add: A_def B_def C_def D_def)
    have r: "map (rotate180 (brushCenter s)) A = C" "map (rotate180 (brushCenter s)) B = D"
       "map (rotate180 (brushCenter s)) C = A" "map (rotate180 (brushCenter s)) D = B"
      using False
      by (simp_all add: A_def B_def C_def D_def rotate180_def brushCenter_def rev_map o_def)
    show ?thesis unfolding c rotate_half [OF len] by (simp add: r)
  qed
qed

lemma moveDown_pts:
  "length pts \<le> length (snd (snd (snd (moveDown cy xsq fr x (y, ysq, inside, pts)))))"
proof (induction cy xsq fr x "(y, ysq, inside, pts)" arbitrary: y ysq inside pts
       rule: moveDown.induct)
  case (1 cy xsq fradius x y ysq inside pts)
  show ?case
  proof (cases inside)
    case True
    then show ?thesis by (simp add: moveDown.simps)
  next
    case out: False
    show ?thesis
    proof (cases "y - 1 \<le> 0")
      case True
      with out show ?thesis by (simp add: moveDown.simps)
    next
      case False
      show ?thesis
      proof (cases "sqrt (xsq + (y - 1 - cy) * (y - 1 - cy)) \<le> fradius")
        case True
        from 1(1) [OF out True False]
        have "length (pts @ [upperLeft (x, y - 1)]) \<le> length (snd (snd (snd (moveDown cy xsq fradius x
                (y - 1, (y - 1 - cy) * (y - 1 - cy), True, pts @ [upperLeft (x, y - 1)])))))" .
        with True False out show ?thesis by (simp add: moveDown.simps [of _ _ _ _ y])
      next
        case F2: False
        from 1(2) [OF out F2 False]
        have "length pts \<le> length (snd (snd (snd (moveDown cy xsq fradius x
                (y - 1, (y - 1 - cy) * (y - 1 - cy), inside, pts)))))" .
        with F2 False out show ?thesis by (simp add: moveDown.simps [of _ _ _ _ y])
      qed
    qed
  qed
qed

lemma quarterLoop_pts:
  "length pts \<le> length (quarterLoop cx cy fr (x, y, inside, pts))"
proof (induction cx cy fr "(x, y, inside, pts)" arbitrary: x y inside pts rule: quarterLoop.induct)
  case (1 cx cy fradius x y inside pts)
  show ?case
  proof (cases "0 < y")
    case False
    then show ?thesis by (simp add: quarterLoop.simps)
  next
    case True
    obtain x' xsq inside' where mr: "moveRight cx ((y - cy) * (y - cy)) fradius (x, 0, inside) = (x', xsq, inside')"
      by (metis prod_cases3)
    obtain y' ysq' inside'' pts' where md: "moveDown cy xsq fradius x'
                        (y, (y - cy) * (y - cy), inside', pts @ [upperLeft (x', y)]) = (y', ysq', inside'', pts')"
      by (metis prod_cases4)
    have "length pts' \<le> length (quarterLoop cx cy fradius (x', y', inside'', pts'))"
      using 1 [OF True mr [symmetric] refl md [symmetric] refl refl] .
    moreover have "length (pts @ [upperLeft (x', y)]) \<le> length pts'"
      using moveDown_pts [of "pts @ [upperLeft (x', y)]" cy xsq fradius x' y "(y - cy) * (y - cy)" inside'] md by simp
    ultimately show ?thesis using True mr md by (simp add: quarterLoop.simps [of _ _ _ x])
  qed
qed

lemma contour_length: "4 \<le> length (contourInImageIndexCoordinates s)"
proof -
  have q: "1 \<le> length (quarterLoop cx cy (real_of_int s / 2)
      (0, real_of_int (s sdiv 2), True, [upperLeft (0, real_of_int (s sdiv 2))]))" for cx cy
    using quarterLoop_pts [of "[upperLeft (0, real_of_int (s sdiv 2))]" cx cy] by simp
  show ?thesis
    using q [of 0 0] q [of "1 / 2" "1 / 2"]
    by (simp add: contourInImageIndexCoordinates_def Let_def)
qed

text \<open>
  C10 (OnInvertLogic, lines 489-503): the inversion swaps the painting pixel values 0 and 1
  and leaves every other painting value as it is.
\<close>

theorem OnInvertLogic_toggles_0_1:
  "(m_PaintingPixelValue t = 1 \<longrightarrow> m_PaintingPixelValue (OnInvertLogic t) = 0)
   \<and> (m_PaintingPixelValue t = 0 \<longrightarrow> m_PaintingPixelValue (OnInvertLogic t) = 1)
   \<and> (m_PaintingPixelValue t \<noteq> 1 \<and> m_PaintingPixelValue t \<noteq> 0
        \<longrightarrow> m_PaintingPixelValue (OnInvertLogic t) = m_PaintingPixelValue t)"
  by (simp add: OnInvertLogic_def)

theorem OnInvertLogic_toggles_0_1_witness:
  "m_PaintingPixelValue (OnInvertLogic (PaintbrushTool_new 1 :: (unit, unit) PaintbrushTool)) = 0
   \<and> m_PaintingPixelValue (OnInvertLogic (PaintbrushTool_new 0 :: (unit, unit) PaintbrushTool)) = 1
   \<and> m_PaintingPixelValue (OnInvertLogic (PaintbrushTool_new 7 :: (unit, unit) PaintbrushTool)) = 7"
  using OnInvertLogic_toggles_0_1 [of "PaintbrushTool_new 1 :: (unit, unit) PaintbrushTool"]
    OnInvertLogic_toggles_0_1 [of "PaintbrushTool_new 0 :: (unit, unit) PaintbrushTool"]
    OnInvertLogic_toggles_0_1 [of "PaintbrushTool_new 7 :: (unit, unit) PaintbrushTool"]
  by (simp add: PaintbrushTool_new_def)

text \<open>
  C6 (UpdateContour, lines 189-284): for the brush sizes 1, 2, 3, 4, 5, 10 and 11 the
  contour has at least four vertices, and rotating every vertex by 180 degrees about the
  brush centre (the pixel centre for odd sizes, the point (0.5, 0.5) for even sizes) gives
  the same closed vertex cycle, started half-way round.
\<close>

theorem UpdateContour_rotation_symmetric:
  assumes "s \<in> {1, 2, 3, 4, 5, 10, 11}"
  shows "4 \<le> length (contourInImageIndexCoordinates s)
     \<and> map (rotate180 (brushCenter s)) (contourInImageIndexCoordinates s)
         = rotate (length (contourInImageIndexCoordinates s) div 2)
             (contourInImageIndexCoordinates s)"
  using contour_length contour_rotation_symmetric by simp

theorem UpdateContour_rotation_symmetric_witness:
  "(4::int) \<in> {1, 2, 3, 4, 5, 10, 11}
   \<and> brushCenter 4 = (1 / 2, 1 / 2)
   \<and> length (contourInImageIndexCoordinates 4) = 16
   \<and> map (rotate180 (brushCenter 4)) (contourInImageIndexCoordinates 4)
       = rotate 8 (contourInImageIndexCoordinates 4)"
proof -
  have m: "(4::int) \<in> {1, 2, 3, 4, 5, 10, 11}" by simp
  have l: "length (contourInImageIndexCoordinates 4) = 16" by (simp add: contour_size_4)
  have c: "brushCenter 4 = (1 / 2, 1 / 2)"
    by (simp add: brushCenter_def signed_modulo_int_def)
  from UpdateContour_rotation_symmetric [OF m] l c m show ?thesis by simp
qed

text \<open>
  A concrete setting for evaluating the tool: planes are numbers, a slice image is the list
  of the contours filled into it so far, index coordinates are world coordinates.
\<close>

definition example_environment :: "(nat, Point3D list list, unit) environment" where
  "example_environment =
     \<lparr>workingData = Some (Some ()),
      WorldToIndex = (\<lambda>_ p. p),
      planeEqual = (\<lambda>a b. a = b),
      GetAffectedImageSliceAs2DImage = (\<lambda>_ _. []),
      zeroSliceLike = (\<lambda>_. []),
      FillContourInSlice2 = (\<lambda>contour slice _. map_option (\<lambda>fills. fills @ [contour]) slice),
      BackProjectContourFrom2DSlice = (\<lambda>_ contour. contour),
      m_InternalFillValue = 1,
      eps = 0,
      vertex2 = 0\<rparr>"

definition example_tool :: "int \<Rightarrow> (nat, Point3D list list) PaintbrushTool" where
  "example_tool paintingPixelValue = PaintbrushTool_new paintingPixelValue"

definition example_event :: "real \<Rightarrow> real \<Rightarrow> nat InteractionPositionEvent" where
  "example_event x y =
     \<lparr>positionInWorld = (x, y, 0), currentWorldPlaneGeometry = Some 0,
      isAbstractTransformGeometry = False\<rparr>"

lemma Check_frame:
  "m_LastContourSize (CheckIfCurrentSliceHasChanged env e t) = m_LastContourSize t"
  "m_MasterContour (CheckIfCurrentSliceHasChanged env e t) = m_MasterContour t"
  "m_LastPosition (CheckIfCurrentSliceHasChanged env e t) = m_LastPosition t"
  "m_FeedbackContour (CheckIfCurrentSliceHasChanged env e t) = m_FeedbackContour t"
  "m_PaintingPixelValue (CheckIfCurrentSliceHasChanged env e t) = m_PaintingPixelValue t"
  by (simp_all add: CheckIfCurrentSliceHasChanged_def Let_def split: option.splits)

lemma Check_WorkingSlice:
  "m_WorkingSlice t \<noteq> None \<Longrightarrow> m_WorkingSlice (CheckIfCurrentSliceHasChanged env e t) \<noteq> None"
  by (auto simp add: CheckIfCurrentSliceHasChanged_def Let_def split: option.splits)

lemma Check_PaintingSlice:
  "m_PaintingSlice (CheckIfCurrentSliceHasChanged env e t) = m_PaintingSlice t
   \<or> m_PaintingSlice t = None
     \<and> m_PaintingSlice (CheckIfCurrentSliceHasChanged env e t)
         = map_option (zeroSliceLike env) (m_WorkingSlice (CheckIfCurrentSliceHasChanged env e t))"
  by (auto simp add: CheckIfCurrentSliceHasChanged_def Let_def split: option.splits)

text \<open>What a call of \<^verbatim>\<open>MouseMoved\<close> that returns leaves behind.\<close>

lemma MouseMoved_result:
  assumes "0 \<le> eps env"
    and "MouseMoved env e pressed (st0, t0) = Some (st1, t1)"
  shows "m_Size st1 = m_Size st0"
    and "m_LastContourSize t1 = m_Size st0"
    and "m_WorkingSlice t1 = m_WorkingSlice (CheckIfCurrentSliceHasChanged env e t0)"
    and "m_WorkingSlice t1 \<noteq> None"
    and "\<exists>p. roundedIndexCoordinates env e t0 = Some p
          \<and> \<bar>fst p - fst (lastPos st1)\<bar> \<le> eps env
          \<and> \<bar>fst (snd p) - fst (snd (lastPos st1))\<bar> \<le> eps env
          \<and> \<bar>snd (snd p) - snd (snd (lastPos st1))\<bar> \<le> eps env"
  using assms
  by (auto simp add: MouseMoved_def Let_def UpdateContour_def roundedIndexCoordinates_def
      split: option.splits if_splits)

text \<open>
  C7 (MouseMoved, lines 338-359): when a call of \<^verbatim>\<open>MouseMoved\<close> without the button
  pressed follows a call whose position rounded to the same index coordinates, the second
  call returns right after the slice check and the test of the brush size: the statics
  are unchanged and the tool is what the slice check alone leaves. No contour is filled;
  the painting slice is the one it was (or, if there was none, the zero-initialised slice
  the slice check creates), and the last position, the feedback contour and the master
  contour are unchanged.
\<close>

theorem MouseMoved_same_voxel_is_noop:
  assumes eps: "0 \<le> eps env"
    and first: "MouseMoved env e1 pressed (st0, t0) = Some (st1, t1)"
    and same: "roundedIndexCoordinates env e2 t1 = roundedIndexCoordinates env e1 t0"
  shows "MouseMoved env e2 False (st1, t1) = Some (st1, CheckIfCurrentSliceHasChanged env e2 t1)
    \<and> (m_PaintingSlice (CheckIfCurrentSliceHasChanged env e2 t1) = m_PaintingSlice t1
         \<or> m_PaintingSlice t1 = None
           \<and> m_PaintingSlice (CheckIfCurrentSliceHasChanged env e2 t1)
               = map_option (zeroSliceLike env)
                   (m_WorkingSlice (CheckIfCurrentSliceHasChanged env e2 t1)))
    \<and> m_LastPosition (CheckIfCurrentSliceHasChanged env e2 t1) = m_LastPosition t1
    \<and> m_FeedbackContour (CheckIfCurrentSliceHasChanged env e2 t1) = m_FeedbackContour t1
    \<and> m_MasterContour (CheckIfCurrentSliceHasChanged env e2 t1) = m_MasterContour t1"
proof -
  note r = MouseMoved_result [OF eps first]
  from r(5) obtain p where p: "roundedIndexCoordinates env e1 t0 = Some p"
    and d: "\<bar>fst p - fst (lastPos st1)\<bar> \<le> eps env"
      "\<bar>fst (snd p) - fst (snd (lastPos st1))\<bar> \<le> eps env"
      "\<bar>snd (snd p) - snd (snd (lastPos st1))\<bar> \<le> eps env"
    by blast
  from r(4) obtain ws where ws: "m_WorkingSlice (CheckIfCurrentSliceHasChanged env e2 t1) = Some ws"
    using Check_WorkingSlice [of t1 env e2] by auto
  have size: "m_LastContourSize (CheckIfCurrentSliceHasChanged env e2 t1) = m_Size st1"
    using r(1,2) by (simp add: Check_frame)
  from same p have "roundedIndexCoordinates env e2 t1 = Some p" by simp
  with ws
  have idx: "(std_round (fst (WorldToIndex env ws (positionInWorld e2))),
              std_round (fst (snd (WorldToIndex env ws (positionInWorld e2)))),
              snd (snd (WorldToIndex env ws (positionInWorld e2)))) = p"
    by (simp add: roundedIndexCoordinates_def Let_def)
  then have c: "std_round (fst (WorldToIndex env ws (positionInWorld e2))) = fst p"
    "std_round (fst (snd (WorldToIndex env ws (positionInWorld e2)))) = fst (snd p)"
    "snd (snd (WorldToIndex env ws (positionInWorld e2))) = snd (snd p)"
    by auto
  from d have n: "\<not> eps env < \<bar>fst p - fst (lastPos st1)\<bar>"
    "\<not> eps env < \<bar>fst (snd p) - fst (snd (lastPos st1))\<bar>"
    "\<not> eps env < \<bar>snd (snd p) - snd (snd (lastPos st1))\<bar>"
    by simp_all
  have "MouseMoved env e2 False (st1, t1) = Some (st1, CheckIfCurrentSliceHasChanged env e2 t1)"
    using size ws by (simp add: MouseMoved_def Let_def c n)
  then show ?thesis
    using Check_PaintingSlice [of env e2 t1] by (simp add: Check_frame)
qed

lemmas tool_eval = MouseMoved_def example_environment_def example_event_def
  initial_statics_def PaintbrushTool_new_def CheckIfCurrentSliceHasChanged_def
  UpdateContour_def SetSize_def roundedIndexCoordinates_def Let_def std_round_def
  EuclideanDistanceTo_def gapContour_def vnl_normalize_def

lemma example_first_call:
  "MouseMoved example_environment (example_event (2 / 10) (- (3 / 10))) True
     (initial_statics, PaintbrushTool_new 1)
   = Some (\<lparr>m_Size = 1, lastPos = (0, 0, 0)\<rparr>,
           \<lparr>m_PaintingPixelValue = 1, m_LastContourSize = 1,
            m_MasterContour = [(- (1 / 2), 1 / 2, 0), (- (1 / 2), - (1 / 2), 0),
                               (1 / 2, - (1 / 2), 0), (1 / 2, 1 / 2, 0)],
            m_CurrentPlane = Some 0, m_WorkingSlice = Some [],
            m_PaintingSlice = Some [[(- (1 / 2), 1 / 2, 0), (- (1 / 2), - (1 / 2), 0),
                                     (1 / 2, - (1 / 2), 0), (1 / 2, 1 / 2, 0)]],
            m_LastPosition = (0, 0, 0), m_PaintingNodeVisible = False,
            m_PaintingNodeColor = ColorRGB 0 1 0,
            m_FeedbackContour = [(- (1 / 2), 1 / 2, 0), (- (1 / 2), - (1 / 2), 0),
                                 (1 / 2, - (1 / 2), 0), (1 / 2, 1 / 2, 0)],
            m_FeedbackContourColor = ColorDefault\<rparr>)"
  by (simp add: tool_eval contour_eval)

theorem MouseMoved_same_voxel_is_noop_witness:
  "MouseMoved example_environment (example_event (- (4 / 10)) (1 / 10)) False
     (the (MouseMoved example_environment (example_event (2 / 10) (- (3 / 10))) True
        (initial_statics, PaintbrushTool_new 1)))
   = MouseMoved example_environment (example_event (2 / 10) (- (3 / 10))) True
        (initial_statics, PaintbrushTool_new 1)
   \<and> m_PaintingSlice (snd (the (MouseMoved example_environment
         (example_event (2 / 10) (- (3 / 10))) True (initial_statics, PaintbrushTool_new 1))))
       = Some [[(- (1 / 2), 1 / 2, 0), (- (1 / 2), - (1 / 2), 0),
                (1 / 2, - (1 / 2), 0), (1 / 2, 1 / 2, 0)]]"
proof -
  have e: "0 \<le> eps example_environment" by (simp add: example_environment_def)
  have same: "roundedIndexCoordinates example_environment (example_event (- (4 / 10)) (1 / 10))
        \<lparr>m_PaintingPixelValue = 1, m_LastContourSize = 1,
            m_MasterContour = [(- (1 / 2), 1 / 2, 0), (- (1 / 2), - (1 / 2), 0),
                               (1 / 2, - (1 / 2), 0), (1 / 2, 1 / 2, 0)],
            m_CurrentPlane = Some 0, m_WorkingSlice = Some [],
            m_PaintingSlice = Some [[(- (1 / 2), 1 / 2, 0), (- (1 / 2), - (1 / 2), 0),
                                     (1 / 2, - (1 / 2), 0), (1 / 2, 1 / 2, 0)]],
            m_LastPosition = (0, 0, 0), m_PaintingNodeVisible = False,
            m_PaintingNodeColor = ColorRGB 0 1 0,
            m_FeedbackContour = [(- (1 / 2), 1 / 2, 0), (- (1 / 2), - (1 / 2), 0),
                                 (1 / 2, - (1 / 2), 0), (1 / 2, 1 / 2, 0)],
            m_FeedbackContourColor = ColorDefault\<rparr>
      = roundedIndexCoordinates example_environment (example_event (2 / 10) (- (3 / 10)))
          (PaintbrushTool_new 1)"
    by (simp add: tool_eval)
  note r = MouseMoved_same_voxel_is_noop [OF e example_first_call same, THEN conjunct1]
  have ck: "CheckIfCurrentSliceHasChanged example_environment
        (example_event (- (4 / 10)) (1 / 10))
        \<lparr>m_PaintingPixelValue = 1, m_LastContourSize = 1,
            m_MasterContour = [(- (1 / 2), 1 / 2, 0), (- (1 / 2), - (1 / 2), 0),
                               (1 / 2, - (1 / 2), 0), (1 / 2, 1 / 2, 0)],
            m_CurrentPlane = Some 0, m_WorkingSlice = Some [],
            m_PaintingSlice = Some [[(- (1 / 2), 1 / 2, 0), (- (1 / 2), - (1 / 2), 0),
                                     (1 / 2, - (1 / 2), 0), (1 / 2, 1 / 2, 0)]],
            m_LastPosition = (0, 0, 0), m_PaintingNodeVisible = False,
            m_PaintingNodeColor = ColorRGB 0 1 0,
            m_FeedbackContour = [(- (1 / 2), 1 / 2, 0), (- (1 / 2), - (1 / 2), 0),
                                 (1 / 2, - (1 / 2), 0), (1 / 2, 1 / 2, 0)],
            m_FeedbackContourColor = ColorDefault\<rparr>
      = \<lparr>m_PaintingPixelValue = 1, m_LastContourSize = 1,
            m_MasterContour = [(- (1 / 2), 1 / 2, 0), (- (1 / 2), - (1 / 2), 0),
                               (1 / 2, - (1 / 2), 0), (1 / 2, 1 / 2, 0)],
            m_CurrentPlane = Some 0, m_WorkingSlice = Some [],
            m_PaintingSlice = Some [[(- (1 / 2), 1 / 2, 0), (- (1 / 2), - (1 / 2), 0),
                                     (1 / 2, - (1 / 2), 0), (1 / 2, 1 / 2, 0)]],
            m_LastPosition = (0, 0, 0), m_PaintingNodeVisible = False,
            m_PaintingNodeColor = ColorRGB 0 1 0,
            m_FeedbackContour = [(- (1 / 2), 1 / 2, 0), (- (1 / 2), - (1 / 2), 0),
                                 (1 / 2, - (1 / 2), 0), (1 / 2, 1 / 2, 0)],
            m_FeedbackContourColor = ColorDefault\<rparr>"
    by (simp add: CheckIfCurrentSliceHasChanged_def example_environment_def example_event_def)
  show ?thesis
    unfolding example_first_call option.sel using r unfolding ck by simp
qed

text \<open>
  C9 (m_Size, SetSize, MouseMoved lines 327-331): \<^verbatim>\<open>SetSize\<close> called on one tool
  writes the static and changes nothing of the object it is called on. The next
  \<^verbatim>\<open>MouseMoved\<close> of any other tool that returns has taken over the new size: it leaves
  \<^verbatim>\<open>m_LastContourSize\<close> at the new value, builds the contour of the new size when the
  tool's last contour size differs from it, and builds nothing otherwise.
\<close>

theorem SetSize_is_shared_by_all_tools:
  assumes "MouseMoved env e pressed (fst (SetSize v (st, ta)), tb) = Some (st', tb')"
  shows "snd (SetSize v (st, ta)) = ta
    \<and> m_Size (fst (SetSize v (st, ta))) = v
    \<and> m_MasterContour (UpdateContour (fst (SetSize v (st, ta))) (Some e) tb)
        = contourInImageIndexCoordinates v
    \<and> m_LastContourSize tb' = v
    \<and> (m_LastContourSize tb \<noteq> v \<longrightarrow> m_MasterContour tb' = contourInImageIndexCoordinates v)
    \<and> (m_LastContourSize tb = v \<longrightarrow> m_MasterContour tb' = m_MasterContour tb)"
  using assms
  by (auto simp add: MouseMoved_def SetSize_def UpdateContour_def Let_def Check_frame
      split: option.splits if_splits)

lemma example_other_tool_call:
  "MouseMoved example_environment (example_event 0 0) False
     (fst (SetSize 4 (initial_statics, example_tool 1)), example_tool 0) \<noteq> None"
  by (simp add: tool_eval example_tool_def)

theorem SetSize_is_shared_by_all_tools_witness:
  "m_LastContourSize (example_tool 0) \<noteq> 4
   \<and> m_LastContourSize (snd (the (MouseMoved example_environment (example_event 0 0) False
        (fst (SetSize 4 (initial_statics, example_tool 1)), example_tool 0)))) = 4
   \<and> m_MasterContour (snd (the (MouseMoved example_environment (example_event 0 0) False
        (fst (SetSize 4 (initial_statics, example_tool 1)), example_tool 0))))
      = contourInImageIndexCoordinates 4"
proof -
  from example_other_tool_call obtain st' tb' where
    m: "MouseMoved example_environment (example_event 0 0) False
          (fst (SetSize 4 (initial_statics, example_tool 1)), example_tool 0)
        = Some (st', tb')"
    by fastforce
  have n: "m_LastContourSize (example_tool 0) \<noteq> 4"
    by (simp add: PaintbrushTool_new_def example_tool_def)
  from SetSize_is_shared_by_all_tools [OF m] n show ?thesis
    unfolding m by simp
qed

text \<open>
  C5 (SetSize, UpdateContour): a brush size of 0 or less is not rejected.
  \<^verbatim>\<open>SetSize\<close> stores 0, and \<^verbatim>\<open>UpdateContour\<close> then replaces the empty master
  contour of a new tool by four vertices.
\<close>

theorem UpdateContour_size_0_counterexample:
  "m_Size (fst (SetSize 0 (initial_statics, example_tool 1))) = 0
   \<and> m_MasterContour (example_tool 1) = []
   \<and> m_MasterContour
        (UpdateContour (fst (SetSize 0 (initial_statics, example_tool 1)))
          (Some (example_event 0 0)) (example_tool 1))
      = [(- (1 / 2), 1 / 2, 0), (- (1 / 2), 1 / 2, 0), (3 / 2, 1 / 2, 0), (3 / 2, 1 / 2, 0)]"
  by (simp add: SetSize_def UpdateContour_def PaintbrushTool_new_def example_tool_def
      contour_size_0)

text \<open>
  C5 as the code has it: for every size of 0 or less, \<^verbatim>\<open>SetSize\<close> stores the size and
  \<^verbatim>\<open>UpdateContour\<close>, given a position event, builds a master contour of exactly four
  vertices: the start vertex \<^verbatim>\<open>upperLeft(0, size / 2)\<close> and its three mirror images. The
  marching loop is not entered.
\<close>

theorem UpdateContour_nonpositive_size:
  assumes "s \<le> 0"
  shows "m_Size (fst (SetSize s (st, t))) = s
    \<and> length (m_MasterContour (UpdateContour (fst (SetSize s (st, t))) (Some e) t)) = 4
    \<and> m_MasterContour (UpdateContour (fst (SetSize s (st, t))) (Some e) t)
        = (if s smod 2 = 0
           then [(- (1 / 2), real_of_int (s sdiv 2) + 1 / 2, 0),
                 (- (1 / 2), 1 / 2 - real_of_int (s sdiv 2), 0),
                 (3 / 2, 1 / 2 - real_of_int (s sdiv 2), 0),
                 (3 / 2, real_of_int (s sdiv 2) + 1 / 2, 0)]
           else [(- (1 / 2), real_of_int (s sdiv 2) + 1 / 2, 0),
                 (- (1 / 2), - (real_of_int (s sdiv 2) + 1 / 2), 0),
                 (1 / 2, - (real_of_int (s sdiv 2) + 1 / 2), 0),
                 (1 / 2, real_of_int (s sdiv 2) + 1 / 2, 0)])"
  using contour_size_nonpos [OF assms]
  by (simp add: SetSize_def UpdateContour_def)

theorem UpdateContour_nonpositive_size_witness:
  "(- 3 :: int) \<le> 0
   \<and> m_Size (fst (SetSize (- 3) (initial_statics, example_tool 1))) = - 3
   \<and> m_MasterContour
        (UpdateContour (fst (SetSize (- 3) (initial_statics, example_tool 1)))
          (Some (example_event 0 0)) (example_tool 1))
      = [(- (1 / 2), - (1 / 2), 0), (- (1 / 2), 1 / 2, 0), (1 / 2, 1 / 2, 0),
         (1 / 2, - (1 / 2), 0)]"
proof -
  have h: "(- 3 :: int) \<le> 0" by simp
  from UpdateContour_nonpositive_size [OF h, of initial_statics
      "example_tool 1" "example_event 0 0"]
  show ?thesis
    by (simp add: signed_divide_int_def signed_modulo_int_def)
qed

section \<open>Slice interpolation widget (QmitkSlicesInterpolator.cpp)\<close>

text \<open>
  Images are objects shared by pointer: the state holds a store from references to
  images, and \<^verbatim>\<open>m_Segmentation\<close> is a reference into it. Of an image the model keeps
  what the modelled functions read (its dimension, its extent per axis, its time
  geometry's two lookups) and its voxel data, whose type is a parameter. Time points are
  real numbers; the \<^verbatim>\<open>unsigned int\<close> counts (slices, threads, time steps) are natural
  numbers, none of which the code can make wrap around.
\<close>

type_synonym ref = nat

record 'vox Image =
  img_Dimension :: nat
  img_DimensionOf :: "int \<Rightarrow> nat"
  img_IsValidTimePoint :: "real \<Rightarrow> bool"
  img_TimePointToTimeStep :: "real \<Rightarrow> nat"
  img_voxels :: 'vox

record 'pl SliceNavigationController =
  snc_SelectedTimePoint :: real
  snc_CurrentPlaneGeometry :: 'pl

record 'vox ApplyDiffImageOperation =
  op_image :: ref
  op_diffImage :: 'vox
  op_timeStep :: nat
  op_factor :: real

record 'vox OperationEvent =
  ev_doOp :: "'vox ApplyDiffImageOperation"
  ev_undoOp :: "'vox ApplyDiffImageOperation"
  ev_comment :: string

text \<open>
  The widget's members, together with the process-wide state its functions touch: the
  image store, the undo stack with the two event id counters, the progress bar and the
  log of \<^verbatim>\<open>MITK_WARN\<close> messages (the text and the time point streamed after it). \<open>m_ToolManager\<close> is \<open>None\<close> for a null tool manager,
  \<open>Some None\<close> when there is no working node, \<open>Some (Some None)\<close> when the node's data is
  not an image.
\<close>

record ('vox, 'sl, 'pl) interpolator_state =
  store :: "ref \<Rightarrow> 'vox Image"
  m_ToolManager :: "ref option option option"
  m_Segmentation :: "ref option"
  m_FeedbackNode :: "'sl option"
  m_LastSNC :: "'pl SliceNavigationController option"
  m_LastSliceIndex :: int
  undoStack :: "'vox OperationEvent list"
  currGroupEventId :: int
  currObjectEventId :: int
  progressStepsToDo :: nat
  progressSteps :: nat
  warnings :: "(string \<times> real) list"

text \<open>
  What the widget calls but the sources under study do not define, taken as parameters:
  \<^verbatim>\<open>std::thread::hardware_concurrency()\<close>, the slice lookup of \<^verbatim>\<open>SegTool2D\<close>, the
  interpolation controller's \<^verbatim>\<open>Interpolate\<close> (\<open>None\<close> is a null result), the
  reslice-and-overwrite pipeline writing a slice into a volume at a plane and time step, the
  zero-filled diff image initialised like the segmentation at a time step, the move of a
  plane's origin to a slice index, and \<^verbatim>\<open>DiffImageApplier::ExecuteOperation\<close>.
  The last parameter is the value the counter \<^verbatim>\<open>std::atomic_uint totalChangedSlices;\<close>
  holds when \<^verbatim>\<open>AcceptAllInterpolations\<close> starts counting: the declaration has no
  initialiser, so the value is indeterminate before C++20 and 0 from C++20 on.
\<close>

record ('vox, 'sl, 'pl) collaborators =
  hardware_concurrency :: nat
  DetermineAffectedImageSlice :: "'vox Image \<Rightarrow> 'pl \<Rightarrow> int \<times> int"
  InterpolateSlice :: "int \<Rightarrow> int \<Rightarrow> 'pl \<Rightarrow> nat \<Rightarrow> 'sl option"
  OverwriteSlice :: "'sl \<Rightarrow> 'pl \<Rightarrow> nat \<Rightarrow> 'vox \<Rightarrow> 'vox"
  ZeroDiffImage :: "'vox Image \<Rightarrow> nat \<Rightarrow> 'vox"
  SetOriginToSlice :: "'pl \<Rightarrow> int \<Rightarrow> nat \<Rightarrow> 'pl"
  ExecuteOperation :: "'vox ApplyDiffImageOperation \<Rightarrow> (ref \<Rightarrow> 'vox Image) \<Rightarrow> (ref \<Rightarrow> 'vox Image)"
  indeterminate_atomic_uint :: nat

datatype failure = NullPointerDereference | DivisionByZero

subsection \<open>Interpolate and OnAcceptInterpolationClicked\<close>

definition warning_Interpolate :: string where
  "warning_Interpolate = ''Cannot interpolate segmentation. Passed time point is not within the time bounds of WorkingImage. Time point: ''"

definition warning_OnAcceptInterpolationClicked :: string where
  "warning_OnAcceptInterpolationClicked = ''Cannot accept interpolation. Time point selected by SliceNavigationController is not within the time bounds of segmentation. Time point: ''"

definition warning_AcceptAllInterpolations :: string where
  "warning_AcceptAllInterpolations = ''Cannot accept all interpolations. Time point selected by passed SliceNavigationController is not within the time bounds of segmentation. Time point: ''"

definition Interpolate :: "('vox, 'sl, 'pl) collaborators \<Rightarrow> 'pl \<Rightarrow> real
    \<Rightarrow> 'pl SliceNavigationController
    \<Rightarrow> ('vox, 'sl, 'pl) interpolator_state \<Rightarrow> ('vox, 'sl, 'pl) interpolator_state" where
  "Interpolate env plane timePoint slicer s =
     (case m_ToolManager s of
        None \<Rightarrow> s
      | Some None \<Rightarrow> s
      | Some (Some data) \<Rightarrow>
          (let s1 = s\<lparr>m_Segmentation := data\<rparr>
           in case data of
                None \<Rightarrow> s1
              | Some r \<Rightarrow>
                  if \<not> img_IsValidTimePoint (store s1 r) timePoint
                  then s1\<lparr>warnings := warnings s1 @ [(warning_Interpolate, timePoint)]\<rparr>
                  else
                    (let timeStep = img_TimePointToTimeStep (store s1 r) timePoint;
                         clicked = DetermineAffectedImageSlice env (store s1 r) plane;
                         interpolation = InterpolateSlice env (fst clicked) (snd clicked) plane timeStep
                     in s1\<lparr>m_FeedbackNode := interpolation, m_LastSNC := Some slicer,
                            m_LastSliceIndex := snd clicked\<rparr>)))"

text \<open>
  \<^verbatim>\<open>OnAcceptInterpolationClicked\<close> dereferences \<^verbatim>\<open>m_LastSNC\<close> unchecked; the model
  returns the failure when it is null.
\<close>

definition OnAcceptInterpolationClicked :: "('vox, 'sl, 'pl) collaborators
    \<Rightarrow> ('vox, 'sl, 'pl) interpolator_state \<Rightarrow> failure + ('vox, 'sl, 'pl) interpolator_state" where
  "OnAcceptInterpolationClicked env s =
     (case (m_Segmentation s, m_FeedbackNode s) of
        (Some r, Some interpolatedSlice) \<Rightarrow>
          (case m_LastSNC s of
             None \<Rightarrow> Inl NullPointerDereference
           | Some lastSNC \<Rightarrow>
               (let timePoint = snc_SelectedTimePoint lastSNC
                in if \<not> img_IsValidTimePoint (store s r) timePoint
                   then Inr (s\<lparr>warnings := warnings s @
                               [(warning_OnAcceptInterpolationClicked, timePoint)]\<rparr>)
                   else
                     (let timeStep = img_TimePointToTimeStep (store s r) timePoint;
                          written = OverwriteSlice env interpolatedSlice (snc_CurrentPlaneGeometry lastSNC)
                                      timeStep (img_voxels (store s r))
                      in Inr (s\<lparr>store := (store s)(r := (store s r)\<lparr>img_voxels := written\<rparr>),
                                m_FeedbackNode := None\<rparr>))))
      | _ \<Rightarrow> Inr s)"

subsection \<open>AcceptAllInterpolations\<close>

text \<open>
  The distribution loop
  \<^verbatim>\<open>sliceIndices[sliceIndex % numThreads].push_back(sliceIndex)\<close> over a vector of
  \<^verbatim>\<open>numThreads\<close> empty vectors. With no thread and at least one slice the first
  round computes a remainder by zero.
\<close>

definition sliceIndices :: "nat \<Rightarrow> nat \<Rightarrow> failure + nat list list" where
  "sliceIndices numThreads numSlices =
     (if numThreads = 0 \<and> 0 < numSlices then Inl DivisionByZero
      else Inr (fold (\<lambda>sliceIndex v.
                        v[sliceIndex mod numThreads := v ! (sliceIndex mod numThreads) @ [sliceIndex]])
                  [0..<numSlices] (replicate numThreads [])))"

text \<open>
  One round of the lambda's loop for one slice index. The thread's plane origin is moved
  to the slice; a non-null interpolation is written into the diff image at time step 0 and
  counted; the progress bar advances in both cases. The counter is an unsigned 32-bit
  integer: its increment wraps around.
\<close>

definition interpolate_slice :: "('vox, 'sl, 'pl) collaborators \<Rightarrow> int \<Rightarrow> nat \<Rightarrow> nat
    \<Rightarrow> 'pl \<times> 'vox \<times> nat \<times> nat \<Rightarrow> 'pl \<times> 'vox \<times> nat \<times> nat" where
  "interpolate_slice env sliceDimension timeStep sliceIndex =
     (\<lambda>(clonedPlaneGeometry, diffImage, totalChangedSlices, progress).
        (let plane = SetOriginToSlice env clonedPlaneGeometry sliceDimension sliceIndex
         in case InterpolateSlice env sliceDimension (int sliceIndex) plane timeStep of
              None \<Rightarrow> (plane, diffImage, totalChangedSlices, progress + 1)
            | Some interpolation \<Rightarrow>
                (plane, OverwriteSlice env interpolation plane 0 diffImage,
                 (totalChangedSlices + 1) mod 2 ^ 32, progress + 1)))"

text \<open>
  The lambda \<^verbatim>\<open>interpolate(threadIndex)\<close>: it clones the plane geometry and runs over
  its own slice indices. The shared diff image and the two shared counters are passed
  through.
\<close>

definition interpolate :: "('vox, 'sl, 'pl) collaborators \<Rightarrow> int \<Rightarrow> nat \<Rightarrow> 'pl \<Rightarrow> nat list
    \<Rightarrow> 'vox \<times> nat \<times> nat \<Rightarrow> 'vox \<times> nat \<times> nat" where
  "interpolate env sliceDimension timeStep planeGeometry indices =
     (\<lambda>shared. snd (fold (interpolate_slice env sliceDimension timeStep) indices
                       (planeGeometry, shared)))"

text \<open>
  The threads write disjoint slices of the diff image and only add to the counters, and
  the function joins them all before it reads anything. The model runs them one after the
  other in the order of their indices.
\<close>

definition run_threads :: "('vox, 'sl, 'pl) collaborators \<Rightarrow> int \<Rightarrow> nat \<Rightarrow> 'pl \<Rightarrow> nat list list
    \<Rightarrow> 'vox \<times> nat \<times> nat \<Rightarrow> 'vox \<times> nat \<times> nat" where
  "run_threads env sliceDimension timeStep planeGeometry indicesPerThread =
     fold (interpolate env sliceDimension timeStep planeGeometry) indicesPerThread"

fun to_string :: "nat \<Rightarrow> string" where
  "to_string n =
     (if n < 10 then [char_of (48 + n)]
      else to_string (n div 10) @ [char_of (48 + n mod 10)])"

declare to_string.simps [simp del]

text \<open>
  Lines 840-860, after the threads are joined: when the counter is positive, the do and
  undo operations over the diff image are created, pushed as one event and the do
  operation is executed; the feedback node is cleared in both cases. The steps announced
  to the progress bar before the threads start are recorded here too.
\<close>

definition merge_diffImage :: "('vox, 'sl, 'pl) collaborators \<Rightarrow> ref \<Rightarrow> nat \<Rightarrow> nat
    \<Rightarrow> ('vox, 'sl, 'pl) interpolator_state \<Rightarrow> 'vox \<times> nat \<times> nat
    \<Rightarrow> ('vox, 'sl, 'pl) interpolator_state" where
  "merge_diffImage env r timeStep numSlices s =
     (\<lambda>(diffImage, totalChangedSlices, progress).
        (let s1 = s\<lparr>progressStepsToDo := progressStepsToDo s + numSlices,
                    progressSteps := progress\<rparr>;
             s2 = (if totalChangedSlices > 0
                   then
                     (let doOp = \<lparr>op_image = r, op_diffImage = diffImage,
                                  op_timeStep = timeStep, op_factor = 1\<rparr>;
                          undoOp = \<lparr>op_image = r, op_diffImage = diffImage,
                                    op_timeStep = timeStep, op_factor = - 1\<rparr>;
                          comment = ''Confirm all interpolations ('' @
                                      to_string totalChangedSlices @ '')'';
                          undoStackItem = \<lparr>ev_doOp = doOp, ev_undoOp = undoOp,
                                           ev_comment = comment\<rparr>
                      in s1\<lparr>currGroupEventId := currGroupEventId s1 + 1,
                            currObjectEventId := currObjectEventId s1 + 1,
                            undoStack := undoStackItem # undoStack s1,
                            store := ExecuteOperation env doOp (store s1)\<rparr>)
                   else s1)
         in s2\<lparr>m_FeedbackNode := None\<rparr>))"

text \<open>
  \<^verbatim>\<open>AcceptAllInterpolations(slicer)\<close>. The counter \<^verbatim>\<open>totalChangedSlices\<close> is declared
  without an initialiser and starts at the value \<open>indeterminate_atomic_uint\<close>. The time
  point is tested only for a segmentation of dimension 4; otherwise time step 0 is used.
  The number of threads is the smaller of \<^verbatim>\<open>hardware_concurrency()\<close> and the number of
  slices.
\<close>

definition AcceptAllInterpolations :: "('vox, 'sl, 'pl) collaborators
    \<Rightarrow> 'pl SliceNavigationController
    \<Rightarrow> ('vox, 'sl, 'pl) interpolator_state \<Rightarrow> failure + ('vox, 'sl, 'pl) interpolator_state" where
  "AcceptAllInterpolations env slicer s =
     (case m_Segmentation s of
        None \<Rightarrow> Inr s
      | Some r \<Rightarrow>
          (let timePoint = snc_SelectedTimePoint slicer
           in if img_Dimension (store s r) = 4 \<and> \<not> img_IsValidTimePoint (store s r) timePoint
              then Inr (s\<lparr>warnings := warnings s @
                          [(warning_AcceptAllInterpolations, timePoint)]\<rparr>)
              else
                (let timeStep = (if img_Dimension (store s r) = 4
                                 then img_TimePointToTimeStep (store s r) timePoint else 0);
                     diffImage = ZeroDiffImage env (store s r) timeStep;
                     planeGeometry = snc_CurrentPlaneGeometry slicer;
                     sliceDimension = fst (DetermineAffectedImageSlice env (store s r) planeGeometry);
                     numSlices = img_DimensionOf (store s r) sliceDimension;
                     numThreads = min (hardware_concurrency env) numSlices
                 in case sliceIndices numThreads numSlices of
                      Inl e \<Rightarrow> Inl e
                    | Inr indices \<Rightarrow>
                        Inr (merge_diffImage env r timeStep numSlices s
                               (run_threads env sliceDimension timeStep planeGeometry indices
                                  (diffImage, indeterminate_atomic_uint env, progressSteps s))))))"

text \<open>
  The calls of the interpolation a thread makes for its slice indices: each with the slice
  index and the plane whose origin the loop has moved there.
\<close>

fun thread_calls :: "('vox, 'sl, 'pl) collaborators \<Rightarrow> int \<Rightarrow> 'pl \<Rightarrow> nat list \<Rightarrow> (nat \<times> 'pl) list" where
  "thread_calls env sliceDimension plane [] = []"
| "thread_calls env sliceDimension plane (sliceIndex # indices) =
     (sliceIndex, SetOriginToSlice env plane sliceDimension sliceIndex)
       # thread_calls env sliceDimension
           (SetOriginToSlice env plane sliceDimension sliceIndex) indices"

definition every_interpolation_is_null :: "('vox, 'sl, 'pl) collaborators \<Rightarrow> int \<Rightarrow> nat \<Rightarrow> 'pl
    \<Rightarrow> nat list list \<Rightarrow> bool" where
  "every_interpolation_is_null env sliceDimension timeStep planeGeometry indicesPerThread =
     list_all
       (\<lambda>indices.
          list_all
            (\<lambda>call. InterpolateSlice env sliceDimension (int (fst call)) (snd call) timeStep
                      = None)
            (thread_calls env sliceDimension planeGeometry indices))
       indicesPerThread"

subsection \<open>The distribution of slices over threads\<close>

lemma distribute_fold:
  assumes "0 < T"
  shows "fold (\<lambda>sliceIndex v. v[sliceIndex mod T := v ! (sliceIndex mod T) @ [sliceIndex]])
           [0..<n] (replicate T [])
         = map (\<lambda>t. filter (\<lambda>i. i mod T = t) [0..<n]) [0..<T]"
proof (induction n)
  case 0
  show ?case by (simp add: map_replicate_const)
next
  case (Suc n)
  have k: "n mod T < T" using assms by simp
  have "(map (\<lambda>t. filter (\<lambda>i. i mod T = t) [0..<n]) [0..<T])
          [n mod T := (map (\<lambda>t. filter (\<lambda>i. i mod T = t) [0..<n]) [0..<T]) ! (n mod T) @ [n]]
        = map (\<lambda>t. filter (\<lambda>i. i mod T = t) [0..<Suc n]) [0..<T]"
  proof (rule nth_equalityI)
    show "length ((map (\<lambda>t. filter (\<lambda>i. i mod T = t) [0..<n]) [0..<T])
          [n mod T := (map (\<lambda>t. filter (\<lambda>i. i mod T = t) [0..<n]) [0..<T]) ! (n mod T) @ [n]])
        = length (map (\<lambda>t. filter (\<lambda>i. i mod T = t) [0..<Suc n]) [0..<T])"
      by simp
  next
    fix j
    assume "j < length ((map (\<lambda>t. filter (\<lambda>i. i mod T = t) [0..<n]) [0..<T])
          [n mod T := (map (\<lambda>t. filter (\<lambda>i. i mod T = t) [0..<n]) [0..<T]) ! (n mod T) @ [n]])"
    then have j: "j < T" by simp
    show "(map (\<lambda>t. filter (\<lambda>i. i mod T = t) [0..<n]) [0..<T])
          [n mod T := (map (\<lambda>t. filter (\<lambda>i. i mod T = t) [0..<n]) [0..<T]) ! (n mod T) @ [n]] ! j
        = map (\<lambda>t. filter (\<lambda>i. i mod T = t) [0..<Suc n]) [0..<T] ! j"
      using j k by (cases "j = n mod T") (simp_all add: nth_list_update)
  qed
  with Suc show ?case by simp
qed

lemma sliceIndices_eq:
  assumes "0 < hw"
  shows "sliceIndices (min hw N) N
         = Inr (map (\<lambda>t. filter (\<lambda>i. i mod min hw N = t) [0..<N]) [0..<min hw N])"
proof (cases "N = 0")
  case True
  then show ?thesis by (simp add: sliceIndices_def)
next
  case False
  with assms have "0 < min hw N" by simp
  from distribute_fold [OF this] False assms show ?thesis
    by (simp add: sliceIndices_def)
qed

text \<open>
  With at least one thread, the distribution loop gives thread \<open>t\<close> the indices \<open>i < N\<close>
  with \<open>i mod numThreads = t\<close> in increasing order; the lists together hold exactly the
  indices \<open>0, ..., N - 1\<close>, each in exactly one list and once.
\<close>

lemma sliceIndices_partition:
  assumes "0 < hw"
  shows "\<exists>v. sliceIndices (min hw N) N = Inr v
      \<and> length v = min hw N
      \<and> (\<forall>t < length v. v ! t = filter (\<lambda>i. i mod min hw N = t) [0..<N])
      \<and> (\<Union>t < length v. set (v ! t)) = {0..<N}
      \<and> (\<forall>i < N. \<exists>!t. t < length v \<and> i \<in> set (v ! t))
      \<and> distinct (concat v)"
proof -
  define T where "T = min hw N"
  define v where "v = map (\<lambda>t. filter (\<lambda>i. i mod T = t) [0..<N]) [0..<T]"
  have eq: "sliceIndices (min hw N) N = Inr v"
    using sliceIndices_eq [OF assms, of N] by (simp add: v_def T_def)
  have len: "length v = T" by (simp add: v_def)
  have nth: "v ! t = filter (\<lambda>i. i mod T = t) [0..<N]" if "t < T" for t
    using that by (simp add: v_def)
  have Tpos: "0 < T" if "0 < N" using that assms by (simp add: T_def)
  have un: "(\<Union>t < length v. set (v ! t)) = {0..<N}"
  proof (rule set_eqI)
    fix i
    show "i \<in> (\<Union>t < length v. set (v ! t)) \<longleftrightarrow> i \<in> {0..<N}"
    proof
      assume "i \<in> (\<Union>t < length v. set (v ! t))"
      then show "i \<in> {0..<N}" using nth len by auto
    next
      assume i: "i \<in> {0..<N}"
      then have "0 < T" using Tpos by auto
      then have "i mod T < T" by simp
      moreover have "i \<in> set (v ! (i mod T))" using i nth [OF \<open>i mod T < T\<close>] by simp
      ultimately show "i \<in> (\<Union>t < length v. set (v ! t))" using len by auto
    qed
  qed
  have ex1: "\<exists>!t. t < length v \<and> i \<in> set (v ! t)" if "i < N" for i
  proof (rule ex1I [of _ "i mod T"])
    have "0 < T" using that Tpos by auto
    then have "i mod T < T" by simp
    then show "i mod T < length v \<and> i \<in> set (v ! (i mod T))"
      using that nth len by simp
  next
    fix t
    assume "t < length v \<and> i \<in> set (v ! t)"
    then show "t = i mod T" using nth len by auto
  qed
  have dist: "distinct (concat v)"
  proof (rule distinct_concat)
    show "distinct v"
    proof (cases "N = 0")
      case True
      then show ?thesis by (simp add: v_def T_def)
    next
      case False
      then have "0 < T" using Tpos by simp
      show ?thesis
        unfolding distinct_conv_nth
      proof (intro allI impI)
        fix a b
        assume a: "a < length v" and b: "b < length v" and ab: "a \<noteq> b"
        have "a < N" using a len by (simp add: T_def)
        moreover have "a mod T = a" using a len by simp
        ultimately have "a \<in> set (v ! a)" using nth a len by simp
        moreover have "a \<notin> set (v ! b)" using nth b len ab \<open>a mod T = a\<close> by auto
        ultimately show "v ! a \<noteq> v ! b" by auto
      qed
    qed
  next
    fix ys
    assume "ys \<in> set v"
    then show "distinct ys" by (auto simp add: v_def)
  next
    fix ys zs
    assume "ys \<in> set v" "zs \<in> set v" "ys \<noteq> zs"
    then show "set ys \<inter> set zs = {}" by (auto simp add: v_def)
  qed
  show ?thesis
    using eq len nth un ex1 dist unfolding T_def [symmetric] by auto
qed

lemma sliceIndices_no_thread: "0 < N \<Longrightarrow> sliceIndices (min 0 N) N = Inl DivisionByZero"
  by (simp add: sliceIndices_def)

definition example_indices :: "nat list list" where
  "example_indices = [[0, 4, 8], [1, 5, 9], [2, 6], [3, 7]]"

lemma example_sliceIndices: "sliceIndices (min 4 10) 10 = Inr example_indices"
  by code_simp

lemma sliceIndices_partition_example:
  "(0::nat) < 4
   \<and> sliceIndices (min 4 10) 10 = Inr [[0, 4, 8], [1, 5, 9], [2, 6], [3, 7]]
   \<and> length example_indices = min 4 10
   \<and> (\<Union>t < length example_indices. set (example_indices ! t)) = {0..<10}
   \<and> distinct (concat example_indices)"
proof -
  have h: "(0::nat) < 4" by simp
  from sliceIndices_partition [OF h, of 10] obtain v where
    v: "sliceIndices (min 4 10) 10 = Inr v" "length v = min 4 10"
      "(\<Union>t < length v. set (v ! t)) = {0..<10}" "distinct (concat v)"
    by blast
  from v(1) have e: "v = example_indices" using example_sliceIndices by simp
  have "sliceIndices (min 4 10) 10 = Inr [[0, 4, 8], [1, 5, 9], [2, 6], [3, 7]]"
    using example_sliceIndices by (simp add: example_indices_def)
  with v(2,3,4) h show ?thesis unfolding e by blast
qed

subsection \<open>A pass that changes no slice\<close>

lemma fold_interpolate_slice_None:
  assumes "list_all (\<lambda>call. InterpolateSlice env d (int (fst call)) (snd call) ts = None)
             (thread_calls env d pl indices)"
  shows "snd (fold (interpolate_slice env d ts) indices (pl, diffImg, changed, progress))
       = (diffImg, changed, progress + length indices)"
  using assms
proof (induction indices arbitrary: pl progress)
  case Nil
  show ?case by simp
next
  case (Cons i indices)
  then have "InterpolateSlice env d (int i) (SetOriginToSlice env pl d i) ts = None" by simp
  then have "interpolate_slice env d ts i (pl, diffImg, changed, progress)
      = (SetOriginToSlice env pl d i, diffImg, changed, progress + 1)"
    by (simp add: interpolate_slice_def)
  with Cons show ?case by simp
qed

lemma run_threads_None:
  assumes "every_interpolation_is_null env d ts plane v"
  shows "run_threads env d ts plane v (diffImg, changed, progress)
       = (diffImg, changed, progress + length (concat v))"
  using assms
proof (induction v arbitrary: progress)
  case Nil
  show ?case by (simp add: run_threads_def)
next
  case (Cons indices v)
  have "interpolate env d ts plane indices (diffImg, changed, progress)
      = (diffImg, changed, progress + length indices)"
    using Cons.prems
    by (simp add: interpolate_def fold_interpolate_slice_None every_interpolation_is_null_def)
  moreover have "run_threads env d ts plane v (diffImg, changed, progress + length indices)
      = (diffImg, changed, progress + length indices + length (concat v))"
    using Cons by (simp add: every_interpolation_is_null_def)
  ultimately show ?case by (simp add: run_threads_def)
qed

text \<open>
  When the pass has counted at least one changed slice, the function pushes exactly one
  event, whose two operations hold the same image, diff image and time step with the
  factors 1 and -1, raises both event id counters by one and executes the do operation.
\<close>

lemma AcceptAllInterpolations_merges_once:
  assumes "m_Segmentation s = Some r"
    and "\<not> (img_Dimension (store s r) = 4
          \<and> \<not> img_IsValidTimePoint (store s r) (snc_SelectedTimePoint slicer))"
    and "AcceptAllInterpolations env slicer s = Inr s'"
  shows "undoStack s' = undoStack s \<and> store s' = store s
      \<or> (\<exists>diffImage timeStep changed.
            0 < changed
          \<and> undoStack s'
              = \<lparr>ev_doOp = \<lparr>op_image = r, op_diffImage = diffImage, op_timeStep = timeStep,
                              op_factor = 1\<rparr>,
                  ev_undoOp = \<lparr>op_image = r, op_diffImage = diffImage, op_timeStep = timeStep,
                                op_factor = - 1\<rparr>,
                  ev_comment = ''Confirm all interpolations ('' @ to_string changed @ '')''\<rparr>
                # undoStack s
          \<and> store s'
              = ExecuteOperation env
                  \<lparr>op_image = r, op_diffImage = diffImage, op_timeStep = timeStep,
                    op_factor = 1\<rparr> (store s)
          \<and> currGroupEventId s' = currGroupEventId s + 1
          \<and> currObjectEventId s' = currObjectEventId s + 1)"
proof -
  define timeStep where "timeStep = (if img_Dimension (store s r) = 4
      then img_TimePointToTimeStep (store s r) (snc_SelectedTimePoint slicer) else 0)"
  define d where "d = fst (DetermineAffectedImageSlice env (store s r)
      (snc_CurrentPlaneGeometry slicer))"
  define N where "N = img_DimensionOf (store s r) d"
  from assms obtain v where v: "sliceIndices (min (hardware_concurrency env) N) N = Inr v"
    unfolding AcceptAllInterpolations_def Let_def N_def d_def
    by (auto split: sum.splits if_splits)
  obtain diffImage changed progress where
    run: "run_threads env d timeStep (snc_CurrentPlaneGeometry slicer) v
            (ZeroDiffImage env (store s r) timeStep, indeterminate_atomic_uint env,
             progressSteps s)
          = (diffImage, changed, progress)"
    by (metis prod_cases3)
  show ?thesis
  proof (cases "0 < changed")
    case False
    with assms v run have "undoStack s' = undoStack s \<and> store s' = store s"
      unfolding AcceptAllInterpolations_def merge_diffImage_def Let_def N_def d_def timeStep_def
      by (auto split: if_splits)
    then show ?thesis by blast
  next
    case True
    with assms v run have "undoStack s'
              = \<lparr>ev_doOp = \<lparr>op_image = r, op_diffImage = diffImage, op_timeStep = timeStep,
                              op_factor = 1\<rparr>,
                  ev_undoOp = \<lparr>op_image = r, op_diffImage = diffImage, op_timeStep = timeStep,
                                op_factor = - 1\<rparr>,
                  ev_comment = ''Confirm all interpolations ('' @ to_string changed @ '')''\<rparr>
                # undoStack s
          \<and> store s'
              = ExecuteOperation env
                  \<lparr>op_image = r, op_diffImage = diffImage, op_timeStep = timeStep,
                    op_factor = 1\<rparr> (store s)
          \<and> currGroupEventId s' = currGroupEventId s + 1
          \<and> currObjectEventId s' = currObjectEventId s + 1"
      unfolding AcceptAllInterpolations_def merge_diffImage_def Let_def N_def d_def timeStep_def
      by (auto split: if_splits)
    with True show ?thesis by blast
  qed
qed

subsection \<open>A concrete setting for the widget\<close>

text \<open>
  A volume of three slices along axis 2, one label per slice; a plane is the index of its
  slice. The interpolation yields label 7 on slice 1 whenever \<open>interpolates\<close> is set and
  nothing elsewhere; the example's \<^verbatim>\<open>ExecuteOperation\<close> adds the diff image, scaled by
  the factor, to the voxels; two hardware threads are reported and the counter starts at 0.
  The image's time bounds are the interval from 0 to 1.
\<close>

definition example_image :: "nat \<Rightarrow> int list Image" where
  "example_image dimension =
     \<lparr>img_Dimension = dimension, img_DimensionOf = (\<lambda>_. 3),
      img_IsValidTimePoint = (\<lambda>t. 0 \<le> t \<and> t < 1),
      img_TimePointToTimeStep = (\<lambda>_. 0),
      img_voxels = [0, 0, 0]\<rparr>"

definition example_collaborators :: "bool \<Rightarrow> (int list, int, nat) collaborators" where
  "example_collaborators interpolates =
     \<lparr>hardware_concurrency = 2,
      DetermineAffectedImageSlice = (\<lambda>_ plane. (2, int plane)),
      InterpolateSlice = (\<lambda>_ sliceIndex _ _. if interpolates \<and> sliceIndex = 1 then Some 7 else None),
      OverwriteSlice = (\<lambda>interpolation plane _ voxels. voxels[plane := interpolation]),
      ZeroDiffImage = (\<lambda>img _. map (\<lambda>_. 0) (img_voxels img)),
      SetOriginToSlice = (\<lambda>_ _ sliceIndex. sliceIndex),
      ExecuteOperation = (\<lambda>operation images.
        images(op_image operation :=
          (images (op_image operation))
            \<lparr>img_voxels := map2 (\<lambda>a d. a + \<lfloor>op_factor operation\<rfloor> * d)
                             (img_voxels (images (op_image operation)))
                             (op_diffImage operation)\<rparr>)),
      indeterminate_atomic_uint = 0\<rparr>"

definition example_state :: "nat \<Rightarrow> (int list, int, nat) interpolator_state" where
  "example_state dimension =
     \<lparr>store = (\<lambda>_. example_image dimension), m_ToolManager = Some (Some (Some 0)),
      m_Segmentation = Some 0, m_FeedbackNode = Some 7,
      m_LastSNC = Some \<lparr>snc_SelectedTimePoint = 5, snc_CurrentPlaneGeometry = 1\<rparr>,
      m_LastSliceIndex = 1, undoStack = [], currGroupEventId = 0, currObjectEventId = 0,
      progressStepsToDo = 0, progressSteps = 0, warnings = []\<rparr>"

definition example_slicer :: "nat SliceNavigationController" where
  "example_slicer = \<lparr>snc_SelectedTimePoint = 5, snc_CurrentPlaneGeometry = 1\<rparr>"

lemma example_indices_2_3: "sliceIndices 2 3 = Inr [[0, 2], [1]]"
  by code_simp

lemmas widget_eval = AcceptAllInterpolations_def OnAcceptInterpolationClicked_def
  Interpolate_def example_state_def example_image_def example_collaborators_def
  example_slicer_def Let_def example_indices_2_3 run_threads_def interpolate_def
  interpolate_slice_def merge_diffImage_def

text \<open>
  C3 (AcceptAllInterpolations, lines 718-742): not every accept operation aborts on a
  time point outside the time bounds; for a segmentation that is not 4-dimensional the
  time point is not tested. For the 3-dimensional example image, whose time bounds do not
  contain the selected time point 5, \<^verbatim>\<open>AcceptAllInterpolations\<close> returns with slice 1
  of the volume changed, one event on the undo stack and no warning.
\<close>

theorem AcceptAllInterpolations_3D_invalid_time_counterexample:
  "\<not> img_IsValidTimePoint (store (example_state 3) 0) (snc_SelectedTimePoint example_slicer)
   \<and> isl (AcceptAllInterpolations (example_collaborators True) example_slicer (example_state 3))
       = False
   \<and> img_voxels (store (example_state 3) 0) = [0, 0, 0]
   \<and> img_voxels (store (projr (AcceptAllInterpolations (example_collaborators True)
         example_slicer (example_state 3))) 0) = [0, 7, 0]
   \<and> length (undoStack (projr (AcceptAllInterpolations (example_collaborators True)
         example_slicer (example_state 3)))) = 1
   \<and> warnings (projr (AcceptAllInterpolations (example_collaborators True)
         example_slicer (example_state 3))) = []"
  by (simp add: widget_eval)

text \<open>
  C3 as the code has it: with a time point outside the time bounds of the segmentation,
  \<^verbatim>\<open>Interpolate\<close> (for the image of the working node),
  \<^verbatim>\<open>OnAcceptInterpolationClicked\<close>, and \<^verbatim>\<open>AcceptAllInterpolations\<close> for a
  segmentation of dimension 4 return early. They log one warning and change nothing else,
  except that \<^verbatim>\<open>Interpolate\<close> has already stored the working image in
  \<^verbatim>\<open>m_Segmentation\<close>: the image store, the feedback node and the undo stack are as
  before.
\<close>

theorem invalid_time_point_returns_early:
  "(m_ToolManager s = Some (Some (Some r)) \<and> \<not> img_IsValidTimePoint (store s r) timePoint
      \<longrightarrow> Interpolate env plane timePoint slicer s
            = s\<lparr>m_Segmentation := Some r,
                warnings := warnings s @ [(warning_Interpolate, timePoint)]\<rparr>)
   \<and> (m_Segmentation s = Some r \<and> m_FeedbackNode s = Some interpolatedSlice
        \<and> m_LastSNC s = Some lastSNC
        \<and> \<not> img_IsValidTimePoint (store s r) (snc_SelectedTimePoint lastSNC)
      \<longrightarrow> OnAcceptInterpolationClicked env s
            = Inr (s\<lparr>warnings := warnings s @
                     [(warning_OnAcceptInterpolationClicked, snc_SelectedTimePoint lastSNC)]\<rparr>))
   \<and> (m_Segmentation s = Some r \<and> img_Dimension (store s r) = 4
        \<and> \<not> img_IsValidTimePoint (store s r) (snc_SelectedTimePoint slicer)
      \<longrightarrow> AcceptAllInterpolations env slicer s
            = Inr (s\<lparr>warnings := warnings s @
                     [(warning_AcceptAllInterpolations, snc_SelectedTimePoint slicer)]\<rparr>))"
  by (simp add: Interpolate_def OnAcceptInterpolationClicked_def AcceptAllInterpolations_def)

theorem invalid_time_point_returns_early_witness:
  "\<not> img_IsValidTimePoint (store (example_state 4) 0) 5
   \<and> Interpolate (example_collaborators True) 1 5 example_slicer (example_state 4)
       = (example_state 4)\<lparr>m_Segmentation := Some 0,
                             warnings := [(warning_Interpolate, 5)]\<rparr>
   \<and> OnAcceptInterpolationClicked (example_collaborators True) (example_state 4)
       = Inr ((example_state 4)\<lparr>warnings := [(warning_OnAcceptInterpolationClicked, 5)]\<rparr>)
   \<and> AcceptAllInterpolations (example_collaborators True) example_slicer (example_state 4)
       = Inr ((example_state 4)\<lparr>warnings := [(warning_AcceptAllInterpolations, 5)]\<rparr>)"
proof -
  have a: "m_ToolManager (example_state 4) = Some (Some (Some 0))"
    "m_Segmentation (example_state 4) = Some 0"
    "m_FeedbackNode (example_state 4) = Some 7"
    "m_LastSNC (example_state 4) = Some example_slicer"
    "img_Dimension (store (example_state 4) 0) = 4"
    "snc_SelectedTimePoint example_slicer = 5"
    "warnings (example_state 4) = []"
    by (simp_all add: example_state_def example_slicer_def example_image_def)
  have b: "\<not> img_IsValidTimePoint (store (example_state 4) 0) 5"
    by (simp add: example_state_def example_image_def)
  from invalid_time_point_returns_early
    [where s = "example_state 4" and r = 0 and timePoint = 5
       and env = "example_collaborators True" and plane = 1 and slicer = example_slicer
       and interpolatedSlice = 7 and lastSNC = example_slicer]
  show ?thesis using a b by simp
qed


text \<open>
  For a segmentation that is not 4-dimensional the selected time point has no influence on
  \<^verbatim>\<open>AcceptAllInterpolations\<close>.
\<close>

lemma AcceptAllInterpolations_non4D_ignores_time:
  assumes "m_Segmentation s = Some r" and "img_Dimension (store s r) \<noteq> 4"
  shows "AcceptAllInterpolations env (slicer\<lparr>snc_SelectedTimePoint := timePoint\<rparr>) s
       = AcceptAllInterpolations env slicer s"
  using assms by (simp add: AcceptAllInterpolations_def)

lemma fold_interpolate_slice_progress:
  "snd (snd (snd (fold (interpolate_slice env d ts) indices (pl, diffImg, changed, progress))))
     = progress + length indices"
proof (induction indices arbitrary: pl diffImg changed progress)
  case Nil
  show ?case by simp
next
  case (Cons i indices)
  obtain pl' diffImg' changed' where
    step: "interpolate_slice env d ts i (pl, diffImg, changed, progress)
             = (pl', diffImg', changed', progress + 1)"
    by (cases "InterpolateSlice env d (int i) (SetOriginToSlice env pl d i) ts")
      (simp_all add: interpolate_slice_def Let_def)
  show ?case
    using Cons [of pl' diffImg' changed' "progress + 1"] step by simp
qed

lemma run_threads_progress:
  "snd (snd (run_threads env d ts plane v (diffImg, changed, progress)))
     = progress + length (concat v)"
proof (induction v arbitrary: diffImg changed progress)
  case Nil
  show ?case by (simp add: run_threads_def)
next
  case (Cons indices v)
  obtain diffImg' changed' progress' where
    t: "interpolate env d ts plane indices (diffImg, changed, progress)
          = (diffImg', changed', progress')"
    by (metis prod_cases3)
  have "progress' = progress + length indices"
    using t fold_interpolate_slice_progress [of env d ts indices plane diffImg changed progress]
    by (simp add: interpolate_def)
  moreover have "snd (snd (run_threads env d ts plane v (diffImg', changed', progress')))
      = progress' + length (concat v)"
    by (rule Cons)
  ultimately show ?case using t by (simp add: run_threads_def)
qed

lemma partition_length:
  assumes "(\<Union>t < length v. set (v ! t)) = {0..<N}" and "distinct (concat v)"
  shows "length (concat v) = N"
proof -
  have "set (concat v) = (\<Union>t < length v. set (v ! t))"
  proof (rule set_eqI)
    fix x
    show "x \<in> set (concat v) \<longleftrightarrow> x \<in> (\<Union>t < length v. set (v ! t))"
    proof
      assume "x \<in> set (concat v)"
      then obtain xs where xs: "xs \<in> set v" "x \<in> set xs" by auto
      from xs(1) obtain t where "t < length v" "v ! t = xs"
        by (auto simp add: in_set_conv_nth)
      with xs(2) show "x \<in> (\<Union>t < length v. set (v ! t))" by auto
    next
      assume "x \<in> (\<Union>t < length v. set (v ! t))"
      then obtain t where t: "t < length v" "x \<in> set (v ! t)" by auto
      from t(1) have "v ! t \<in> set v" by simp
      with t(2) show "x \<in> set (concat v)" by auto
    qed
  qed
  then have "card (set (concat v)) = N" using assms(1) by (simp only: card_atLeastLessThan)
  moreover have "card (set (concat v)) = length (concat v)"
    using assms(2) by (rule distinct_card)
  ultimately show ?thesis by (simp only:)
qed

text \<open>
  C2 (AcceptAllInterpolations, lines 776-836): for a pass over \<open>N\<close> slices that gets past
  the time point test. When \<^verbatim>\<open>hardware_concurrency()\<close> is 0 and there is a slice, the
  function fails with the remainder by zero of the distribution loop. Otherwise it returns,
  and its result is the merge of what the threads compute on the index lists of exactly
  \<open>min hardware_concurrency N\<close> threads, where thread \<open>t\<close> has the indices \<open>i < N\<close> with
  \<open>i mod numThreads = t\<close> in increasing order; the lists together hold exactly the indices
  \<open>0, ..., N - 1\<close>, each in exactly one list and once, and the progress bar has advanced
  by \<open>N\<close> steps, one for each slice.
\<close>

theorem AcceptAllInterpolations_distributes_slices:
  assumes seg: "m_Segmentation s = Some r"
    and go: "\<not> (img_Dimension (store s r) = 4
               \<and> \<not> img_IsValidTimePoint (store s r) (snc_SelectedTimePoint slicer))"
    and d: "d = fst (DetermineAffectedImageSlice env (store s r)
                      (snc_CurrentPlaneGeometry slicer))"
    and N: "N = img_DimensionOf (store s r) d"
    and ts: "ts = (if img_Dimension (store s r) = 4
                   then img_TimePointToTimeStep (store s r) (snc_SelectedTimePoint slicer)
                   else 0)"
  shows "(hardware_concurrency env = 0 \<and> 0 < N
            \<longrightarrow> AcceptAllInterpolations env slicer s = Inl DivisionByZero)
    \<and> (0 < hardware_concurrency env \<or> N = 0
            \<longrightarrow> (\<exists>v. length v = min (hardware_concurrency env) N
                  \<and> (\<forall>t < length v.
                        v ! t = filter (\<lambda>i. i mod min (hardware_concurrency env) N = t) [0..<N])
                  \<and> (\<Union>t < length v. set (v ! t)) = {0..<N}
                  \<and> (\<forall>i < N. \<exists>!t. t < length v \<and> i \<in> set (v ! t))
                  \<and> distinct (concat v)
                  \<and> AcceptAllInterpolations env slicer s
                      = Inr (merge_diffImage env r ts N s
                               (run_threads env d ts (snc_CurrentPlaneGeometry slicer) v
                                  (ZeroDiffImage env (store s r) ts,
                                   indeterminate_atomic_uint env, progressSteps s)))
                  \<and> progressSteps (projr (AcceptAllInterpolations env slicer s))
                      = progressSteps s + N))"
proof (intro conjI impI)
  assume "hardware_concurrency env = 0 \<and> 0 < N"
  then have "sliceIndices (min (hardware_concurrency env) N) N = Inl DivisionByZero"
    by (simp add: sliceIndices_def)
  with seg go show "AcceptAllInterpolations env slicer s = Inl DivisionByZero"
    by (cases "img_Dimension (store s r) = 4")
      (simp_all add: AcceptAllInterpolations_def Let_def d [symmetric] N [symmetric])
next
  assume c: "0 < hardware_concurrency env \<or> N = 0"
  have "\<exists>v. sliceIndices (min (hardware_concurrency env) N) N = Inr v
      \<and> length v = min (hardware_concurrency env) N
      \<and> (\<forall>t < length v. v ! t = filter (\<lambda>i. i mod min (hardware_concurrency env) N = t) [0..<N])
      \<and> (\<Union>t < length v. set (v ! t)) = {0..<N}
      \<and> (\<forall>i < N. \<exists>!t. t < length v \<and> i \<in> set (v ! t))
      \<and> distinct (concat v)"
  proof (cases "0 < hardware_concurrency env")
    case True
    then show ?thesis by (rule sliceIndices_partition)
  next
    case False
    with c have "N = 0" by simp
    then have "sliceIndices (min (hardware_concurrency env) N) N = Inr []"
      by (simp add: sliceIndices_def)
    with \<open>N = 0\<close> show ?thesis by simp
  qed
  then obtain v where si: "sliceIndices (min (hardware_concurrency env) N) N = Inr v"
    and p: "length v = min (hardware_concurrency env) N"
      "\<forall>t < length v. v ! t = filter (\<lambda>i. i mod min (hardware_concurrency env) N = t) [0..<N]"
      "(\<Union>t < length v. set (v ! t)) = {0..<N}"
      "\<forall>i < N. \<exists>!t. t < length v \<and> i \<in> set (v ! t)"
      "distinct (concat v)"
    by blast
  have eq: "AcceptAllInterpolations env slicer s
      = Inr (merge_diffImage env r ts N s
               (run_threads env d ts (snc_CurrentPlaneGeometry slicer) v
                  (ZeroDiffImage env (store s r) ts,
                   indeterminate_atomic_uint env, progressSteps s)))"
    using seg go si
    by (cases "img_Dimension (store s r) = 4")
      (simp_all add: AcceptAllInterpolations_def Let_def d [symmetric] N [symmetric] ts)
  have pr: "progressSteps (projr (AcceptAllInterpolations env slicer s)) = progressSteps s + N"
  proof -
    obtain diffImg changed progress where
      run: "run_threads env d ts (snc_CurrentPlaneGeometry slicer) v
              (ZeroDiffImage env (store s r) ts, indeterminate_atomic_uint env, progressSteps s)
            = (diffImg, changed, progress)"
      by (metis prod_cases3)
    have "progress = progressSteps s + length (concat v)"
      using run run_threads_progress [of env d ts "snc_CurrentPlaneGeometry slicer" v
          "ZeroDiffImage env (store s r) ts" "indeterminate_atomic_uint env" "progressSteps s"]
      by simp
    then have "progress = progressSteps s + N"
      using partition_length [OF p(3) p(5)] by simp
    then show ?thesis
      unfolding eq run by (simp add: merge_diffImage_def Let_def)
  qed
  from p eq pr
  show "\<exists>v. length v = min (hardware_concurrency env) N
        \<and> (\<forall>t < length v.
              v ! t = filter (\<lambda>i. i mod min (hardware_concurrency env) N = t) [0..<N])
        \<and> (\<Union>t < length v. set (v ! t)) = {0..<N}
        \<and> (\<forall>i < N. \<exists>!t. t < length v \<and> i \<in> set (v ! t))
        \<and> distinct (concat v)
        \<and> AcceptAllInterpolations env slicer s
            = Inr (merge_diffImage env r ts N s
                     (run_threads env d ts (snc_CurrentPlaneGeometry slicer) v
                        (ZeroDiffImage env (store s r) ts,
                         indeterminate_atomic_uint env, progressSteps s)))
        \<and> progressSteps (projr (AcceptAllInterpolations env slicer s)) = progressSteps s + N"
    by blast
qed


theorem AcceptAllInterpolations_distributes_slices_witness:
  "hardware_concurrency ((example_collaborators False)\<lparr>hardware_concurrency := 0\<rparr>) = 0
   \<and> (0::nat) < img_DimensionOf (store (example_state 3) 0) 2
   \<and> AcceptAllInterpolations ((example_collaborators False)\<lparr>hardware_concurrency := 0\<rparr>)
        example_slicer (example_state 3) = Inl DivisionByZero
   \<and> 0 < hardware_concurrency (example_collaborators False)
   \<and> isl (AcceptAllInterpolations (example_collaborators False) example_slicer
        (example_state 3)) = False
   \<and> progressSteps (projr (AcceptAllInterpolations (example_collaborators False)
        example_slicer (example_state 3))) = 3"
proof -
  have seg: "m_Segmentation (example_state 3) = Some 0" by (simp add: example_state_def)
  have go: "\<not> (img_Dimension (store (example_state 3) 0) = 4
      \<and> \<not> img_IsValidTimePoint (store (example_state 3) 0)
            (snc_SelectedTimePoint example_slicer))"
    by (simp add: example_state_def example_image_def)
  have d0: "2 = fst (DetermineAffectedImageSlice
      ((example_collaborators False)\<lparr>hardware_concurrency := 0\<rparr>)
      (store (example_state 3) 0) (snc_CurrentPlaneGeometry example_slicer))"
    by (simp add: example_collaborators_def)
  have d2: "2 = fst (DetermineAffectedImageSlice (example_collaborators False)
      (store (example_state 3) 0) (snc_CurrentPlaneGeometry example_slicer))"
    by (simp add: example_collaborators_def)
  have N: "3 = img_DimensionOf (store (example_state 3) 0) 2"
    by (simp add: example_state_def example_image_def)
  have ts: "0 = (if img_Dimension (store (example_state 3) 0) = 4
      then img_TimePointToTimeStep (store (example_state 3) 0)
             (snc_SelectedTimePoint example_slicer)
      else 0)"
    by (simp add: example_state_def example_image_def)
  have h0: "hardware_concurrency ((example_collaborators False)\<lparr>hardware_concurrency := 0\<rparr>) = 0"
    by simp
  have h2: "0 < hardware_concurrency (example_collaborators False)"
    by (simp add: example_collaborators_def)
  from AcceptAllInterpolations_distributes_slices [OF seg go d0 N ts] h0
  have a: "AcceptAllInterpolations ((example_collaborators False)\<lparr>hardware_concurrency := 0\<rparr>)
        example_slicer (example_state 3) = Inl DivisionByZero"
    by simp
  from AcceptAllInterpolations_distributes_slices [OF seg go d2 N ts] h2
  have b: "isl (AcceptAllInterpolations (example_collaborators False) example_slicer
        (example_state 3)) = False
      \<and> progressSteps (projr (AcceptAllInterpolations (example_collaborators False)
        example_slicer (example_state 3))) = progressSteps (example_state 3) + 3"
    by auto
  have p: "progressSteps (example_state 3) = 0" by (simp add: example_state_def)
  from a b h0 h2 N p show ?thesis by simp
qed

text \<open>
  C4 (AcceptAllInterpolations, lines 773 and 840-861): for a pass that gets past the time
  point test and the distribution loop and in which every interpolation the threads call
  returns a null result, the counter keeps the value it started with. When that value is
  0, the image store, the undo stack and both event id counters are as they were. When
  the indeterminate start value is not 0, the function pushes one event over the all-zero
  diff image, raises both event id counters and executes the do operation, although no
  slice changed.
\<close>

theorem AcceptAllInterpolations_pass_without_changes:
  assumes seg: "m_Segmentation s = Some r"
    and go: "\<not> (img_Dimension (store s r) = 4
               \<and> \<not> img_IsValidTimePoint (store s r) (snc_SelectedTimePoint slicer))"
    and d: "d = fst (DetermineAffectedImageSlice env (store s r)
                      (snc_CurrentPlaneGeometry slicer))"
    and N: "N = img_DimensionOf (store s r) d"
    and ts: "ts = (if img_Dimension (store s r) = 4
                   then img_TimePointToTimeStep (store s r) (snc_SelectedTimePoint slicer)
                   else 0)"
    and si: "sliceIndices (min (hardware_concurrency env) N) N = Inr v"
    and null: "every_interpolation_is_null env d ts (snc_CurrentPlaneGeometry slicer) v"
  shows "\<exists>s'. AcceptAllInterpolations env slicer s = Inr s'
    \<and> (indeterminate_atomic_uint env = 0
          \<longrightarrow> store s' = store s \<and> undoStack s' = undoStack s
              \<and> currGroupEventId s' = currGroupEventId s
              \<and> currObjectEventId s' = currObjectEventId s)
    \<and> (0 < indeterminate_atomic_uint env
          \<longrightarrow> undoStack s'
                = \<lparr>ev_doOp = \<lparr>op_image = r, op_diffImage = ZeroDiffImage env (store s r) ts,
                                op_timeStep = ts, op_factor = 1\<rparr>,
                    ev_undoOp = \<lparr>op_image = r, op_diffImage = ZeroDiffImage env (store s r) ts,
                                  op_timeStep = ts, op_factor = - 1\<rparr>,
                    ev_comment = ''Confirm all interpolations ('' @
                                   to_string (indeterminate_atomic_uint env) @ '')''\<rparr>
                  # undoStack s
              \<and> store s'
                  = ExecuteOperation env
                      \<lparr>op_image = r, op_diffImage = ZeroDiffImage env (store s r) ts,
                        op_timeStep = ts, op_factor = 1\<rparr> (store s)
              \<and> currGroupEventId s' = currGroupEventId s + 1
              \<and> currObjectEventId s' = currObjectEventId s + 1)"
proof -
  have run: "run_threads env d ts (snc_CurrentPlaneGeometry slicer) v
        (ZeroDiffImage env (store s r) ts, indeterminate_atomic_uint env, progressSteps s)
      = (ZeroDiffImage env (store s r) ts, indeterminate_atomic_uint env,
         progressSteps s + length (concat v))"
    using null by (rule run_threads_None)
  have eq: "AcceptAllInterpolations env slicer s
      = Inr (merge_diffImage env r ts N s
               (ZeroDiffImage env (store s r) ts, indeterminate_atomic_uint env,
                progressSteps s + length (concat v)))"
    using seg go si run
    by (cases "img_Dimension (store s r) = 4")
      (simp_all add: AcceptAllInterpolations_def Let_def d [symmetric] N [symmetric] ts)
  show ?thesis
    unfolding eq by (simp add: merge_diffImage_def Let_def)
qed

theorem AcceptAllInterpolations_pass_without_changes_witness:
  "every_interpolation_is_null
       ((example_collaborators False)\<lparr>indeterminate_atomic_uint := 1\<rparr>) 2 0 1 [[0, 2], [1]]
   \<and> isl (AcceptAllInterpolations
        ((example_collaborators False)\<lparr>indeterminate_atomic_uint := 1\<rparr>)
        example_slicer (example_state 3)) = False
   \<and> undoStack (example_state 3) = []
   \<and> undoStack (projr (AcceptAllInterpolations
        ((example_collaborators False)\<lparr>indeterminate_atomic_uint := 1\<rparr>)
        example_slicer (example_state 3)))
      = [\<lparr>ev_doOp = \<lparr>op_image = 0, op_diffImage = [0, 0, 0], op_timeStep = 0, op_factor = 1\<rparr>,
          ev_undoOp = \<lparr>op_image = 0, op_diffImage = [0, 0, 0], op_timeStep = 0,
                        op_factor = - 1\<rparr>,
          ev_comment = ''Confirm all interpolations (1)''\<rparr>]
   \<and> currGroupEventId (projr (AcceptAllInterpolations
        ((example_collaborators False)\<lparr>indeterminate_atomic_uint := 1\<rparr>)
        example_slicer (example_state 3))) = 1
   \<and> undoStack (projr (AcceptAllInterpolations (example_collaborators False)
        example_slicer (example_state 3))) = []"
proof -
  have seg: "m_Segmentation (example_state 3) = Some 0" by (simp add: example_state_def)
  have go: "\<not> (img_Dimension (store (example_state 3) 0) = 4
      \<and> \<not> img_IsValidTimePoint (store (example_state 3) 0)
            (snc_SelectedTimePoint example_slicer))"
    by (simp add: example_state_def example_image_def)
  have d1: "2 = fst (DetermineAffectedImageSlice
      ((example_collaborators False)\<lparr>indeterminate_atomic_uint := 1\<rparr>)
      (store (example_state 3) 0) (snc_CurrentPlaneGeometry example_slicer))"
    by (simp add: example_collaborators_def)
  have d0: "2 = fst (DetermineAffectedImageSlice (example_collaborators False)
      (store (example_state 3) 0) (snc_CurrentPlaneGeometry example_slicer))"
    by (simp add: example_collaborators_def)
  have N: "3 = img_DimensionOf (store (example_state 3) 0) 2"
    by (simp add: example_state_def example_image_def)
  have ts: "0 = (if img_Dimension (store (example_state 3) 0) = 4
      then img_TimePointToTimeStep (store (example_state 3) 0)
             (snc_SelectedTimePoint example_slicer)
      else 0)"
    by (simp add: example_state_def example_image_def)
  have si1: "sliceIndices (min (hardware_concurrency
      ((example_collaborators False)\<lparr>indeterminate_atomic_uint := 1\<rparr>)) 3) 3 = Inr [[0, 2], [1]]"
    by (simp add: example_collaborators_def example_indices_2_3)
  have si0: "sliceIndices (min (hardware_concurrency (example_collaborators False)) 3) 3
      = Inr [[0, 2], [1]]"
    by (simp add: example_collaborators_def example_indices_2_3)
  have n1: "every_interpolation_is_null
      ((example_collaborators False)\<lparr>indeterminate_atomic_uint := 1\<rparr>) 2 0
      (snc_CurrentPlaneGeometry example_slicer) [[0, 2], [1]]"
    by (simp add: every_interpolation_is_null_def example_collaborators_def)
  have n0: "every_interpolation_is_null (example_collaborators False) 2 0
      (snc_CurrentPlaneGeometry example_slicer) [[0, 2], [1]]"
    by (simp add: every_interpolation_is_null_def example_collaborators_def)
  have c1: "indeterminate_atomic_uint
      ((example_collaborators False)\<lparr>indeterminate_atomic_uint := 1\<rparr>) = 1" by simp
  have c0: "indeterminate_atomic_uint (example_collaborators False) = 0"
    by (simp add: example_collaborators_def)
  have z: "ZeroDiffImage ((example_collaborators False)\<lparr>indeterminate_atomic_uint := 1\<rparr>)
      (store (example_state 3) 0) 0 = [0, 0, 0]"
    by (simp add: example_collaborators_def example_state_def example_image_def)
  have u: "undoStack (example_state 3) = []" "currGroupEventId (example_state 3) = 0"
    by (simp_all add: example_state_def)
  have sl: "snc_CurrentPlaneGeometry example_slicer = 1" by (simp add: example_slicer_def)
  have str: "to_string 1 = ''1''" by code_simp
  from AcceptAllInterpolations_pass_without_changes [OF seg go d1 N ts si1 n1]
  obtain s1 where s1: "AcceptAllInterpolations
        ((example_collaborators False)\<lparr>indeterminate_atomic_uint := 1\<rparr>)
        example_slicer (example_state 3) = Inr s1"
    "undoStack s1
      = [\<lparr>ev_doOp = \<lparr>op_image = 0, op_diffImage = [0, 0, 0], op_timeStep = 0, op_factor = 1\<rparr>,
          ev_undoOp = \<lparr>op_image = 0, op_diffImage = [0, 0, 0], op_timeStep = 0,
                        op_factor = - 1\<rparr>,
          ev_comment = ''Confirm all interpolations (1)''\<rparr>]"
    "currGroupEventId s1 = 1"
    unfolding c1 z u using str by auto
  from AcceptAllInterpolations_pass_without_changes [OF seg go d0 N ts si0 n0]
  obtain s0 where s0: "AcceptAllInterpolations (example_collaborators False)
        example_slicer (example_state 3) = Inr s0" "undoStack s0 = []"
    unfolding c0 u by auto
  from n1 sl u s1 s0 show ?thesis by simp
qed

end
